theory Spec2Isabelle
  imports Complex_Main "HOL-Library.List_Lexorder" "HOL-Library.Char_ord"
begin

section \<open>Errors and results\<close>

text \<open>
  The library raises nothing of its own; every failure comes from the Python runtime or
  from the table library underneath. The exceptions the modelled code can meet are the
  values of \<open>error\<close>, and a function that can raise returns \<open>error + 'a\<close>.
\<close>

datatype error = ValueError | KeyError | IndexError | AssertionError | AttributeError

definition bind_res :: "error + 'a \<Rightarrow> ('a \<Rightarrow> error + 'b) \<Rightarrow> error + 'b" where
  "bind_res r f = (case r of Inl e \<Rightarrow> Inl e | Inr x \<Rightarrow> f x)"

section \<open>Numbers in tables\<close>

text \<open>
  A cell of a numeric table is a double. The model keeps the special values, which the
  code's comparisons, sums and quotients meet, and takes a finite value as the real
  number it stands for: rounding, overflow and the sign of a zero are not modelled.
\<close>

datatype fl = Fin real | PInf | NInf | NaN

fun fl_neg :: "fl \<Rightarrow> fl" where
  "fl_neg (Fin x) = Fin (- x)"
| "fl_neg PInf = NInf"
| "fl_neg NInf = PInf"
| "fl_neg NaN = NaN"

fun fl_add :: "fl \<Rightarrow> fl \<Rightarrow> fl" where
  "fl_add NaN b = NaN"
| "fl_add a NaN = NaN"
| "fl_add (Fin x) (Fin y) = Fin (x + y)"
| "fl_add PInf NInf = NaN"
| "fl_add NInf PInf = NaN"
| "fl_add PInf b = PInf"
| "fl_add NInf b = NInf"
| "fl_add (Fin x) b = b"

definition fl_sub :: "fl \<Rightarrow> fl \<Rightarrow> fl" where
  "fl_sub a b = fl_add a (fl_neg b)"

text \<open>The sign of a number that is not NaN: -1, 0 or 1.\<close>

fun fl_sign :: "fl \<Rightarrow> int" where
  "fl_sign (Fin x) = (if x < 0 then - 1 else if x = 0 then 0 else 1)"
| "fl_sign PInf = 1"
| "fl_sign NInf = - 1"
| "fl_sign NaN = 0"

definition signed_inf :: "int \<Rightarrow> fl" where
  "signed_inf s = (if s < 0 then NInf else PInf)"

fun fl_mul :: "fl \<Rightarrow> fl \<Rightarrow> fl" where
  "fl_mul NaN b = NaN"
| "fl_mul a NaN = NaN"
| "fl_mul (Fin x) (Fin y) = Fin (x * y)"
| "fl_mul a b = (if fl_sign a * fl_sign b = 0 then NaN else signed_inf (fl_sign a * fl_sign b))"

text \<open>
  Division of doubles raises nothing: a finite non-zero number over zero is an infinity,
  zero over zero and infinity over infinity are NaN.
\<close>

fun fl_div :: "fl \<Rightarrow> fl \<Rightarrow> fl" where
  "fl_div NaN b = NaN"
| "fl_div a NaN = NaN"
| "fl_div (Fin x) (Fin y) =
     (if y \<noteq> 0 then Fin (x / y) else if x = 0 then NaN else signed_inf (fl_sign (Fin x)))"
| "fl_div (Fin x) b = Fin 0"
| "fl_div a (Fin y) = signed_inf (fl_sign a * (if y < 0 then - 1 else 1))"
| "fl_div a b = NaN"

text \<open>\<open>a < b\<close> on doubles: false as soon as one side is NaN.\<close>

fun fl_less :: "fl \<Rightarrow> fl \<Rightarrow> bool" where
  "fl_less NaN b = False"
| "fl_less a NaN = False"
| "fl_less (Fin x) (Fin y) = (x < y)"
| "fl_less a PInf = (a \<noteq> PInf)"
| "fl_less NInf b = (b \<noteq> NInf)"
| "fl_less a b = False"

text \<open>
  The reductions of the table library skip NaN cells (\<open>skipna\<close>): the sum of no cell is
  0, the maximum of no cell is NaN.
\<close>

definition fl_sum :: "fl list \<Rightarrow> fl" where
  "fl_sum xs = foldl fl_add (Fin 0) (filter (\<lambda>x. x \<noteq> NaN) xs)"

definition fl_max2 :: "fl \<Rightarrow> fl \<Rightarrow> fl" where
  "fl_max2 a b = (if fl_less a b then b else a)"

definition fl_max :: "fl list \<Rightarrow> fl" where
  "fl_max xs =
     (case filter (\<lambda>x. x \<noteq> NaN) xs of [] \<Rightarrow> NaN | y # ys \<Rightarrow> foldl fl_max2 y ys)"

section \<open>structures/enums.py\<close>

text \<open>
  A raw Python value handed to an enumeration's constructor. Python compares numbers by
  value across \<open>bool\<close>, \<open>int\<close> and \<open>float\<close> (\<open>True == 1 == 1.0\<close>), and
  a dictionary lookup follows that equality; strings and \<open>None\<close> equal only themselves.
\<close>

datatype py_value = PyInt int | PyBool bool | PyFloat real | PyStr string | PyNone

fun py_number :: "py_value \<Rightarrow> real option" where
  "py_number (PyInt i) = Some (of_int i)"
| "py_number (PyBool b) = Some (if b then 1 else 0)"
| "py_number (PyFloat x) = Some x"
| "py_number (PyStr s) = None"
| "py_number PyNone = None"

definition py_eq :: "py_value \<Rightarrow> py_value \<Rightarrow> bool" where
  "py_eq a b =
     (case (py_number a, py_number b) of
        (Some x, Some y) \<Rightarrow> x = y
      | (None, None) \<Rightarrow> a = b
      | _ \<Rightarrow> False)"

text \<open>
  \<open>Enum.__call__\<close>: the value is looked up among the members' values; when no member
  has it, the class's \<open>_missing_\<close> hook is asked, and a hook that returns nothing makes
  the call raise \<open>ValueError\<close> (the behaviour of an enumeration without a hook).
\<close>

fun by_value :: "('m \<times> py_value) list \<Rightarrow> py_value \<Rightarrow> 'm option" where
  "by_value [] v = None"
| "by_value ((m, w) # ms) v = (if py_eq w v then Some m else by_value ms v)"

definition enum_call ::
  "('m \<times> py_value) list \<Rightarrow> (py_value \<Rightarrow> 'm option) \<Rightarrow> py_value \<Rightarrow> error + 'm" where
  "enum_call members missing v =
     (case by_value members v of
        Some m \<Rightarrow> Inr m
      | None \<Rightarrow> (case missing v of Some m \<Rightarrow> Inr m | None \<Rightarrow> Inl ValueError))"

datatype PhysicalQuantity =
  TEMPERATURE | ENERGY | TIME | MASS | LENGTH | POWER | UNCATEGORIZED

text \<open>\<open>auto()\<close> numbers the members from 1 in declaration order.\<close>

definition PhysicalQuantity_members :: "(PhysicalQuantity \<times> py_value) list" where
  "PhysicalQuantity_members =
     [(TEMPERATURE, PyInt 1), (ENERGY, PyInt 2), (TIME, PyInt 3), (MASS, PyInt 4),
      (LENGTH, PyInt 5), (POWER, PyInt 6), (PhysicalQuantity.UNCATEGORIZED, PyInt 7)]"

definition PhysicalQuantity_missing :: "py_value \<Rightarrow> PhysicalQuantity option" where
  "PhysicalQuantity_missing v = Some PhysicalQuantity.UNCATEGORIZED"

definition PhysicalQuantity_call :: "py_value \<Rightarrow> error + PhysicalQuantity" where
  "PhysicalQuantity_call = enum_call PhysicalQuantity_members PhysicalQuantity_missing"

datatype EnergyCarrier =
  ELECTRICITY | NATURALGAS | HEATING | COOLING | UNCATEGORIZED | NONE

definition EnergyCarrier_members :: "(EnergyCarrier \<times> py_value) list" where
  "EnergyCarrier_members =
     [(ELECTRICITY, PyInt 1), (NATURALGAS, PyInt 2), (HEATING, PyInt 3), (COOLING, PyInt 4),
      (EnergyCarrier.UNCATEGORIZED, PyInt 5), (NONE, PyInt 6)]"

definition EnergyCarrier_missing :: "py_value \<Rightarrow> EnergyCarrier option" where
  "EnergyCarrier_missing v = Some NONE"

definition EnergyCarrier_call :: "py_value \<Rightarrow> error + EnergyCarrier" where
  "EnergyCarrier_call = enum_call EnergyCarrier_members EnergyCarrier_missing"

text \<open>The value a member was declared with.\<close>

definition value_of :: "('m \<times> py_value) list \<Rightarrow> 'm \<Rightarrow> py_value option" where
  "value_of members m = map_of members m"

datatype Season = WINTER | SUMMER | SPRING | AUTUMN

section \<open>utillib/functions.py\<close>

text \<open>
  A timestamp of a \<open>DatetimeIndex\<close>, by the accessors the code reads. The table library
  computes them from the instant; here they are the fields of the timestamp, \<open>hour\<close> in
  0..23 and \<open>minute\<close> in 0..59 being natural numbers.
\<close>

record timestamp =
  year :: int
  month :: nat
  day :: nat
  hour :: nat
  minute :: nat
  second :: nat
  dayofweek :: nat
  dayofyear :: nat
  week :: nat

definition get_season :: "nat \<Rightarrow> Season" where
  "get_season m =
     (if 3 \<le> m \<and> m \<le> 5 then SPRING
      else if 6 \<le> m \<and> m \<le> 8 then SUMMER
      else if 9 \<le> m \<and> m \<le> 11 then AUTUMN
      else WINTER)"

definition season_dict :: "Season \<Rightarrow> int" where
  "season_dict s = (case s of WINTER \<Rightarrow> 1 | SPRING \<Rightarrow> 2 | SUMMER \<Rightarrow> 3 | AUTUMN \<Rightarrow> 4)"

text \<open>
  The columns \<open>add_time_features\<close> appends to a row, after the row's own cells. The
  calendar date is the triple (year, month, day).
\<close>

record 'a featured_row =
  cells :: 'a
  f_HOUR :: int
  f_DAYOFWEEK :: int
  f_DAYOFYEAR :: int
  f_MONTH :: int
  f_YEAR :: int
  f_WEEKDAYFLAG :: string
  f_HALFHOUR :: int
  f_DATE :: "int \<times> nat \<times> nat"
  f_WEEK :: int
  f_SEASON :: Season
  f_SEASON_NUM :: int

definition time_features :: "timestamp \<Rightarrow> 'a \<Rightarrow> 'a featured_row" where
  "time_features t c =
     \<lparr> cells = c,
       f_HOUR = int (hour t),
       f_DAYOFWEEK = int (dayofweek t),
       f_DAYOFYEAR = int (dayofyear t),
       f_MONTH = int (month t),
       f_YEAR = year t,
       f_WEEKDAYFLAG = (if dayofweek t < 5 then ''weekday'' else ''weekend''),
       f_HALFHOUR = int (hour t * 2 + minute t div 30),
       f_DATE = (year t, month t, day t),
       f_WEEK = int (week t),
       f_SEASON = get_season (month t),
       f_SEASON_NUM = season_dict (get_season (month t)) \<rparr>"

text \<open>
  A time-indexed table is the list of its rows, each the timestamp of the index with the
  row's cells. \<open>add_time_features\<close> works on a copy and returns it.
\<close>

definition add_time_features :: "(timestamp \<times> 'a) list \<Rightarrow> (timestamp \<times> 'a featured_row) list" where
  "add_time_features dataf = map (\<lambda>(t, c). (t, time_features t c)) dataf"

section \<open>structures/datetime-schema.py\<close>

datatype DateTimeSchema =
  HOUR | MINUTES | SECONDS | MONTH | DAYOFWEEK | WEEKDAYFLAG | YEAR | HALFHOUR | DATE | WEEK
| DAYOFYEAR | DATETIME | TIME | WEEKEND | SEASON | SEASON_NUM

section \<open>site/schedule.py\<close>

text \<open>
  The table \<open>get_filter\<close> reads: its number of rows (\<open>len(dataf)\<close>) and its columns of
  calendar features, by label. A column the table does not carry is \<open>None\<close>, and reading
  it raises \<open>KeyError\<close>.
\<close>

record feature_table =
  nrows :: nat
  column :: "DateTimeSchema \<Rightarrow> int list option"

text \<open>
  The occupancy map is a dictionary; the loop of \<open>get_filter\<close> visits its items in
  insertion order, so it is the list of its items.
\<close>

record OccupancySchedule =
  occupancy_dict :: "(int \<times> (int \<times> int) list) list option"
  timestep :: DateTimeSchema

definition default_occupancy :: "(int \<times> (int \<times> int) list) list" where
  "default_occupancy =
     [(0, [(16, 34)]), (1, [(16, 34)]), (2, [(16, 34)]), (3, [(16, 34)]), (4, [(16, 34)]),
      (5, []), (6, [])]"

definition schedule_post_init :: "OccupancySchedule \<Rightarrow> OccupancySchedule" where
  "schedule_post_init self =
     (case occupancy_dict self of
        None \<Rightarrow> self\<lparr>occupancy_dict := Some default_occupancy\<rparr>
      | Some d \<Rightarrow> self)"

text \<open>The dataclass's constructor: the fields' defaults, then \<open>__post_init__\<close>.\<close>

definition new_OccupancySchedule ::
  "(int \<times> (int \<times> int) list) list option \<Rightarrow> DateTimeSchema \<Rightarrow> OccupancySchedule" where
  "new_OccupancySchedule d ts = schedule_post_init \<lparr>occupancy_dict = d, timestep = ts\<rparr>"

definition or_operator :: "bool list \<Rightarrow> bool list \<Rightarrow> bool list" where
  "or_operator list_1 list_2 = map (\<lambda>(a, b). a \<or> b) (zip list_1 list_2)"

definition and_operator :: "bool list \<Rightarrow> bool list \<Rightarrow> bool list" where
  "and_operator list_1 list_2 = map (\<lambda>(a, b). a \<and> b) (zip list_1 list_2)"

text \<open>The inner loop of \<open>get_filter\<close>, over the intervals of one day.\<close>

fun hours_loop ::
  "feature_table \<Rightarrow> DateTimeSchema \<Rightarrow> (int \<times> int) list \<Rightarrow> bool list \<Rightarrow> error + bool list" where
  "hours_loop dataf time_col [] temp_final_time_filt = Inr temp_final_time_filt"
| "hours_loop dataf time_col ((start_time, end_time) # temp_hours) temp_final_time_filt =
     (case column dataf time_col of
        None \<Rightarrow> Inl KeyError
      | Some ts \<Rightarrow>
          (let start_time_filt = map (\<lambda>t. start_time \<le> t) ts;
               end_time_filt = map (\<lambda>t. t \<le> end_time) ts;
               temp_time_filt = and_operator start_time_filt end_time_filt
           in hours_loop dataf time_col temp_hours
                (or_operator temp_final_time_filt temp_time_filt)))"

text \<open>The outer loop, over the days of the occupancy map.\<close>

fun days_loop ::
  "feature_table \<Rightarrow> DateTimeSchema \<Rightarrow> (int \<times> (int \<times> int) list) list \<Rightarrow> bool list
     \<Rightarrow> error + bool list" where
  "days_loop dataf time_col [] temp_filt = Inr temp_filt"
| "days_loop dataf time_col ((temp_day, temp_hours) # items) temp_filt =
     (case column dataf DAYOFWEEK of
        None \<Rightarrow> Inl KeyError
      | Some ds \<Rightarrow>
          (case hours_loop dataf time_col temp_hours (replicate (nrows dataf) False) of
             Inl e \<Rightarrow> Inl e
           | Inr temp_final_time_filt \<Rightarrow>
               (let temp_day_filt = and_operator (map (\<lambda>d. d = temp_day) ds) temp_final_time_filt
                in days_loop dataf time_col items (or_operator temp_filt temp_day_filt))))"

definition get_filter :: "OccupancySchedule \<Rightarrow> feature_table \<Rightarrow> error + bool list" where
  "get_filter self dataf =
     (case occupancy_dict self of
        None \<Rightarrow> Inl AssertionError
      | Some d \<Rightarrow> days_loop dataf (timestep self) d (replicate (nrows dataf) False))"

section \<open>utillib/dummy-data.py\<close>

text \<open>
  \<open>datetime.time\<close> values, as (hour, minute, second); they compare in that order.
\<close>

type_synonym time_of_day = "nat \<times> nat \<times> nat"

definition time_le :: "time_of_day \<Rightarrow> time_of_day \<Rightarrow> bool" where
  "time_le a b =
     (case a of (h1, m1, s1) \<Rightarrow> case b of (h2, m2, s2) \<Rightarrow>
        h1 < h2 \<or> (h1 = h2 \<and> (m1 < m2 \<or> (m1 = m2 \<and> s1 \<le> s2))))"

text \<open>
  A timestamp of the annual index, in UTC: the year and the seconds since the year's
  first midnight. \<open>time_of\<close> is the accessor \<open>timestamp.time()\<close>.
\<close>

record year_instant =
  of_year :: int
  seconds :: nat

definition time_of :: "year_instant \<Rightarrow> time_of_day" where
  "time_of t = ((seconds t div 3600) mod 24, (seconds t div 60) mod 60, seconds t mod 60)"

definition is_leap :: "int \<Rightarrow> bool" where
  "is_leap y = (y mod 4 = 0 \<and> (y mod 100 \<noteq> 0 \<or> y mod 400 = 0))"

definition days_in_year :: "int \<Rightarrow> nat" where
  "days_in_year y = (if is_leap y then 366 else 365)"

text \<open>
  \<open>generate_annual_timesteps\<close>: \<open>datetime(year, ...)\<close> raises \<open>ValueError\<close> outside the
  years 1 to 9999; the range runs from 1 January 00:00:00 in steps of 30 minutes up to
  31 December 23:59:59, the end included when a step falls on it. (The table library has
  a timestamp range of its own, narrower on some versions, which is not modelled.)
\<close>

definition generate_annual_timesteps :: "int \<Rightarrow> error + year_instant list" where
  "generate_annual_timesteps y =
     (if y < 1 \<or> 9999 < y then Inl ValueError
      else
        (let end_seconds = days_in_year y * 86400 - 1
         in Inr (map (\<lambda>k. \<lparr>of_year = y, seconds = k * 1800\<rparr>) [0 ..< end_seconds div 1800 + 1])))"

definition dummy_duos_timetable ::
  "real \<Rightarrow> real \<Rightarrow> real \<Rightarrow> real \<Rightarrow> real \<Rightarrow> (time_of_day \<times> time_of_day \<times> real) list" where
  "dummy_duos_timetable red amber green day_charge night =
     [((16, 0, 0), (20, 0, 0), red + day_charge),
      ((6, 0, 0), (16, 0, 0), amber + day_charge),
      ((0, 0, 0), (6, 0, 0), green + night),
      ((20, 0, 0), (23, 59, 59), green + day_charge)]"

text \<open>\<open>dummy_duos_values()\<close> with its default arguments.\<close>

definition dummy_duos_values :: "(time_of_day \<times> time_of_day \<times> real) list" where
  "dummy_duos_values = dummy_duos_timetable 0.0518 0.00518 0.00051 0.1950 0.1430"

text \<open>
  The price table has one column, labelled with the import-price label: it is the list
  of its rows, timestamp and cell. \<open>dummy_prices.loc[timestamp, column] = charge\<close> writes
  the cell of every row with that timestamp.
\<close>

definition loc_set_cell :: "'i \<Rightarrow> fl \<Rightarrow> ('i \<times> fl) list \<Rightarrow> ('i \<times> fl) list" where
  "loc_set_cell ts v tbl = map (\<lambda>(t, c). if t = ts then (t, v) else (t, c)) tbl"

text \<open>The inner loop of \<open>generate_dummy_price_profile\<close>, with its \<open>break\<close>.\<close>

fun bands_loop ::
  "(time_of_day \<times> time_of_day \<times> real) list \<Rightarrow> year_instant \<Rightarrow> (year_instant \<times> fl) list
     \<Rightarrow> (year_instant \<times> fl) list" where
  "bands_loop [] timestamp dummy_prices = dummy_prices"
| "bands_loop ((start_time, end_time, charge) # bands) timestamp dummy_prices =
     (if time_le start_time (time_of timestamp) \<and> time_le (time_of timestamp) end_time
      then loc_set_cell timestamp (Fin charge) dummy_prices
      else bands_loop bands timestamp dummy_prices)"

definition generate_dummy_price_profile :: "int \<Rightarrow> error + (year_instant \<times> fl) list" where
  "generate_dummy_price_profile y =
     bind_res (generate_annual_timesteps y)
       (\<lambda>timesteps.
          Inr (foldl (\<lambda>dummy_prices timestamp. bands_loop dummy_duos_values timestamp dummy_prices)
                 (map (\<lambda>t. (t, NaN)) timesteps) timesteps))"

text \<open>A band, read as the range of times of day it covers, both ends included.\<close>

definition in_band :: "time_of_day \<times> time_of_day \<times> real \<Rightarrow> time_of_day \<Rightarrow> bool" where
  "in_band band tod = (case band of (start_time, end_time, charge) \<Rightarrow>
     time_le start_time tod \<and> time_le tod end_time)"

definition band_rate :: "time_of_day \<times> time_of_day \<times> real \<Rightarrow> real" where
  "band_rate band = (case band of (start_time, end_time, charge) \<Rightarrow> charge)"

section \<open>structures/site-schema.py\<close>

datatype TechnologyType =
  PV | EV | WINDTURBINE | CHPPLANT | BOILERPLANT | UNCATEGORIZED | HEATPUMP | GRID | SITE

text \<open>
  Modelled from the spec: \<open>structures/site_schema.py\<close>, the module of the column labels, is
  not among the sources. Each member of its two classes is a pair (parameter name, unit);
  the members below are those the code names and the specification lists. The literal
  strings are unknown, so a label is kept symbolic: two members are the same label only
  when they are the same member, which is the uniqueness the specification requires of
  the label set. The label \<open>(f'{tech_name.name}_{col_name[0]}',) + col_name[1:]\<close> that
  \<open>Scenario\<close> builds for a technology is the constructor \<open>ByTechnology\<close>; \<open>Other\<close> is a
  label from outside the schema, as an input table carries before it is formatted.
\<close>

datatype SiteDataSchema =
  INIT_SITE_ELECTRICITY_DEMAND | IMPORT_ELECTRICITY_DEMAND | EXPORT_ELECTRICITY_DEMAND
| ELECTRICITY_GENERATION | ADDITIONAL_ELECTRICITY_DEMAND | SELF_CONSUMED_ELECTRICITY

datatype ResultsSchema =
  IMPORT_ELECTRICITY_PRICES | EXPORT_ELECTRICITY_REVENUES | GHG_INTENSITY_IMPORT_ELECTRICITY
| IMPORT_ELECTRICITY_COSTS | GHG_EMISSIONS_IMPORT_ELECTRICITY | SITE_GHG_EMISSIONS_DISPLACED
| TOTAL_GHG_EMISSIONS_DISPLACED | ELECTRICITY_SAVINGS | OPEX | CAPEX | CAPACITY_INSTALLED
| PEAK_ELECTRICITY_IMPORT | PEAK_ELECTRICITY_EXPORT

datatype label =
  SiteData SiteDataSchema
| Results ResultsSchema
| ByTechnology TechnologyType ResultsSchema
| Other string

section \<open>Tables\<close>

text \<open>
  A numeric table of the table library: the row index and the columns in order, each
  column its label and its cells. In a well-formed table every column has one cell per
  row.
\<close>

record ('i, 'c) table =
  index :: "'i list"
  cols :: "('c \<times> fl list) list"

text \<open>A time-indexed table of the site or of a scenario: its columns carry schema labels.\<close>

type_synonym 'i frame = "('i, label) table"

definition wf_frame :: "('i, 'c) table \<Rightarrow> bool" where
  "wf_frame df = list_all (\<lambda>c. length (snd c) = length (index df)) (cols df)"

text \<open>\<open>df.columns = labels\<close>: refused unless there is one label for each column.\<close>

definition set_columns :: "'c list \<Rightarrow> ('i, 'c) table \<Rightarrow> error + ('i, 'c) table" where
  "set_columns ls df =
     (if length ls = length (cols df)
      then Inr (df\<lparr>cols := zip ls (map snd (cols df))\<rparr>)
      else Inl ValueError)"

text \<open>\<open>common.get_multiindex_single_column(label)\<close>: the one-entry list of column labels.\<close>

definition get_multiindex_multiple_columns :: "label list \<Rightarrow> label list" where
  "get_multiindex_multiple_columns list_columns = list_columns"

definition get_multiindex_single_column :: "label \<Rightarrow> label list" where
  "get_multiindex_single_column schema_column = get_multiindex_multiple_columns [schema_column]"

text \<open>\<open>df.values < 0\<close> and the like: the matrix of truth values, column by column.\<close>

definition values_where :: "(fl \<Rightarrow> bool) \<Rightarrow> ('i, 'c) table \<Rightarrow> bool list list" where
  "values_where P df = map (\<lambda>c. map P (snd c)) (cols df)"

text \<open>
  \<open>df.loc[filt] = v\<close> for a scalar \<open>v\<close> and a mask \<open>filt\<close> of the table's own shape: the
  cells under a true entry are overwritten. A mask of another shape is refused.
\<close>

definition loc_mask_set_scalar :: "bool list list \<Rightarrow> fl \<Rightarrow> ('i, 'c) table \<Rightarrow> error + ('i, 'c) table" where
  "loc_mask_set_scalar filt v df =
     (if map length filt = map (\<lambda>c. length (snd c)) (cols df)
      then Inr (df\<lparr>cols :=
             map (\<lambda>(c, m). (fst c, map (\<lambda>(x, b). if b then v else x) (zip (snd c) m)))
               (zip (cols df) filt)\<rparr>)
      else Inl IndexError)"

text \<open>\<open>-df\<close>.\<close>

definition neg_frame :: "('i, 'c) table \<Rightarrow> ('i, 'c) table" where
  "neg_frame df = df\<lparr>cols := map (\<lambda>c. (fst c, map fl_neg (snd c))) (cols df)\<rparr>"

text \<open>
  A mask with one column, used as the key of \<open>.loc\<close> on a table of as many rows, flags
  rows. A key of another shape is refused.
\<close>

definition row_flags :: "bool list list \<Rightarrow> nat \<Rightarrow> error + bool list" where
  "row_flags filt n =
     (case filt of
        [m] \<Rightarrow> if length m = n then Inr m else Inl IndexError
      | _ \<Rightarrow> Inl IndexError)"

definition flagged :: "bool list \<Rightarrow> 'a list \<Rightarrow> 'a list" where
  "flagged m xs = map fst (filter snd (zip xs m))"

text \<open>\<open>df.loc[filt]\<close>: the flagged rows, with their index labels.\<close>

definition loc_mask_get :: "bool list list \<Rightarrow> ('i, 'c) table \<Rightarrow> error + ('i, 'c) table" where
  "loc_mask_get filt df =
     bind_res (row_flags filt (length (index df)))
       (\<lambda>m. Inr \<lparr>index = flagged m (index df),
                 cols = map (\<lambda>c. (fst c, flagged m (snd c))) (cols df)\<rparr>)"

text \<open>
  \<open>value.reindex(index=ax)\<close>: the rows of \<open>value\<close> in the order of the labels \<open>ax\<close>, a
  row of NaN for a label \<open>value\<close> does not have; refused when \<open>value\<close> has a label twice.
\<close>

definition cell_at :: "'i list \<Rightarrow> fl list \<Rightarrow> 'i \<Rightarrow> fl" where
  "cell_at idx xs i = (case map_of (zip idx xs) i of None \<Rightarrow> NaN | Some x \<Rightarrow> x)"

definition reindex :: "'i list \<Rightarrow> ('i, 'c) table \<Rightarrow> error + ('i, 'c) table" where
  "reindex ax df =
     (if distinct (index df)
      then Inr \<lparr>index = ax, cols = map (\<lambda>c. (fst c, map (cell_at (index df) (snd c)) ax)) (cols df)\<rparr>
      else Inl ValueError)"

text \<open>Writes the cells \<open>vs\<close>, in order, into the flagged positions of a column.\<close>

fun scatter :: "bool list \<Rightarrow> fl list \<Rightarrow> fl list \<Rightarrow> fl list" where
  "scatter (True # m) (x # xs) (v # vs) = v # scatter m xs vs"
| "scatter (False # m) (x # xs) vs = x # scatter m xs vs"
| "scatter m xs vs = xs"

text \<open>
  \<open>df.loc[filt] = value\<close> for a table \<open>value\<close>: \<open>value\<close> is aligned on the index labels
  of the flagged rows of \<open>df\<close> (taken as it is when its index equals them, reindexed
  otherwise), and its cells are written into the flagged rows column by column, by
  position; the labels of the columns play no part. Refused when the two tables differ in
  their number of columns.
\<close>

definition loc_mask_set_frame :: "bool list list \<Rightarrow> ('i, 'c) table \<Rightarrow> ('i, 'c) table \<Rightarrow> error + ('i, 'c) table" where
  "loc_mask_set_frame filt val df =
     bind_res (row_flags filt (length (index df)))
       (\<lambda>m. bind_res
          (if index val = flagged m (index df) then Inr val
           else reindex (flagged m (index df)) val)
          (\<lambda>aligned.
             if length (cols aligned) = length (cols df)
             then Inr (df\<lparr>cols :=
                    map (\<lambda>(c, a). (fst c, scatter m (snd c) (snd a))) (zip (cols df) (cols aligned))\<rparr>)
             else Inl ValueError))"

section \<open>analysis/location.py, structures/protocols.py\<close>

record GeoLocation =
  geo_name :: string
  latitude :: fl
  longitude :: fl
  altitude :: fl
  geo_timezone :: string

text \<open>
  An asset aggregator, by what the protocol makes it report: the dictionaries are the
  lists of their items, in order.
\<close>

record 'i AssetAggregator =
  agg_name :: string
  agg_size_system :: "(TechnologyType \<times> fl) list"
  agg_capital_cost :: "(TechnologyType \<times> fl) list"
  agg_annual_maintenance_cost :: "(TechnologyType \<times> fl) list"
  lifetime :: int
  additional_demand :: "'i frame"
  onsite_generation :: "'i frame"

section \<open>analysis/site.py\<close>

record 'i Site =
  site_name :: string
  geolocation :: GeoLocation
  list_asset_aggregator :: "'i AssetAggregator list"
  site_electricity_demand :: "'i frame"
  saving_path :: string

definition get_import_and_export_demand ::
  "'i Site \<Rightarrow> 'i frame \<Rightarrow> error + ('i frame \<times> 'i frame)" where
  "get_import_and_export_demand self dataf =
     bind_res (loc_mask_set_scalar (values_where (\<lambda>x. fl_less x (Fin 0)) dataf) (Fin 0) dataf)
       (\<lambda>import_dataf.
     bind_res (loc_mask_set_scalar (values_where (\<lambda>x. fl_less (Fin 0) x) dataf) (Fin 0) dataf)
       (\<lambda>export_dataf.
     bind_res (set_columns
                 (get_multiindex_single_column (SiteData IMPORT_ELECTRICITY_DEMAND)) import_dataf)
       (\<lambda>import_dataf.
     bind_res (set_columns
                 (get_multiindex_single_column (SiteData EXPORT_ELECTRICITY_DEMAND))
                 (neg_frame export_dataf))
       (\<lambda>export_dataf. Inr (import_dataf, export_dataf)))))"

definition get_avoided_electricity_import ::
  "'i Site \<Rightarrow> 'i frame \<Rightarrow> 'i frame \<Rightarrow> error + 'i frame" where
  "get_avoided_electricity_import self onsite_gen export_demand =
     (let filt = values_where (\<lambda>x. fl_less (Fin 0) x) export_demand
      in bind_res (loc_mask_get filt (site_electricity_demand self))
           (\<lambda>val.
         bind_res (loc_mask_set_frame filt val onsite_gen)
           (\<lambda>avoided_import.
              set_columns
                (get_multiindex_single_column (SiteData SELF_CONSUMED_ELECTRICITY))
                avoided_import)))"

section \<open>More of the table library\<close>

definition empty_table :: "('i, 'c) table" where
  "empty_table = \<lparr>index = [], cols = []\<rparr>"

text \<open>\<open>len(df)\<close> is the number of rows.\<close>

definition len :: "('i, 'c) table \<Rightarrow> nat" where
  "len df = length (index df)"

text \<open>\<open>df.index = idx\<close>: refused unless \<open>idx\<close> has one label for each row.\<close>

definition set_index :: "'i list \<Rightarrow> ('i, 'c) table \<Rightarrow> error + ('i, 'c) table" where
  "set_index idx df =
     (if length idx = length (index df) then Inr (df\<lparr>index := idx\<rparr>) else Inl ValueError)"

text \<open>\<open>df.iloc[:, 0] = v\<close>: every cell of the first column; there must be a first column.\<close>

definition iloc_set_column0 :: "fl \<Rightarrow> ('i, 'c) table \<Rightarrow> error + ('i, 'c) table" where
  "iloc_set_column0 v df =
     (case cols df of
        [] \<Rightarrow> Inl IndexError
      | c # cs \<Rightarrow> Inr (df\<lparr>cols := (fst c, replicate (length (index df)) v) # cs\<rparr>))"

text \<open>
  \<open>df[col_name].to_frame()\<close>: the column under that label as a table of its own. No such
  column is a \<open>KeyError\<close>; with several columns under the label the selection is a table
  already, which has no \<open>to_frame\<close>.
\<close>

definition getitem_column :: "'c \<Rightarrow> ('i, 'c) table \<Rightarrow> error + ('i, 'c) table" where
  "getitem_column col_name df =
     (case filter (\<lambda>c. fst c = col_name) (cols df) of
        [] \<Rightarrow> Inl KeyError
      | [c] \<Rightarrow> Inr \<lparr>index = index df, cols = [c]\<rparr>
      | c # d # cs \<Rightarrow> Inl AttributeError)"

text \<open>\<open>df.values\<close>: the matrix of the cells, as its number of rows and its columns.\<close>

type_synonym ndarray = "nat \<times> fl list list"

definition values_of :: "('i, 'c) table \<Rightarrow> ndarray" where
  "values_of df = (length (index df), map snd (cols df))"

text \<open>
  Arithmetic of a table with a matrix, by position: cell by cell when the shapes agree; a
  matrix of one column, with the table's number of rows, is used for every column; a
  matrix of one row, with the table's number of columns, is used for every row; any other
  shape is refused.
\<close>

definition arith_values ::
  "(fl \<Rightarrow> fl \<Rightarrow> fl) \<Rightarrow> ('i, 'c) table \<Rightarrow> ndarray \<Rightarrow> error + ('i, 'c) table" where
  "arith_values f df arr =
     (case arr of (n, cs) \<Rightarrow>
        if n = length (index df) \<and> length cs = length (cols df)
        then Inr (df\<lparr>cols := map (\<lambda>(c, a). (fst c, map2 f (snd c) a)) (zip (cols df) cs)\<rparr>)
        else if n = length (index df) \<and> length cs = 1
        then Inr (df\<lparr>cols := map (\<lambda>c. (fst c, map2 f (snd c) (hd cs))) (cols df)\<rparr>)
        else if length cs = length (cols df) \<and> n = 1
        then Inr (df\<lparr>cols :=
               map (\<lambda>(c, a). (fst c, case a of [] \<Rightarrow> snd c | v # vs \<Rightarrow> map (\<lambda>x. f x v) (snd c)))
                 (zip (cols df) cs)\<rparr>)
        else Inl ValueError)"

text \<open>The labels of a list in the order in which they first appear.\<close>

definition first_seen :: "'a list \<Rightarrow> 'a list" where
  "first_seen xs = rev (remdups (rev xs))"

text \<open>
  \<open>pd.concat(frames, axis=1)\<close>: the columns of the tables side by side. Tables on one
  index keep it. Otherwise the rows are the union of the indexes, in order of first
  appearance, and a table has NaN at the rows it lacks; that is refused when an index
  holds a label twice. No table at all is refused.
\<close>

definition concat_axis1 :: "('i, 'c) table list \<Rightarrow> error + ('i, 'c) table" where
  "concat_axis1 frames =
     (case frames of
        [] \<Rightarrow> Inl ValueError
      | f # fs \<Rightarrow>
          if list_all (\<lambda>g. index g = index f) fs
          then Inr \<lparr>index = index f, cols = concat (map cols frames)\<rparr>
          else if list_all (\<lambda>g. distinct (index g)) frames
          then (let ax = first_seen (concat (map index frames))
                in Inr \<lparr>index = ax,
                        cols = concat (map (\<lambda>g. map (\<lambda>c. (fst c, map (cell_at (index g) (snd c)) ax))
                                                   (cols g)) frames)\<rparr>)
          else Inl ValueError)"

text \<open>\<open>df[labels]\<close>: for each label in turn, the columns under it; a label without column is
  a \<open>KeyError\<close>.\<close>

fun select_columns :: "'c list \<Rightarrow> ('i, 'c) table \<Rightarrow> error + ('c \<times> fl list) list" where
  "select_columns [] df = Inr []"
| "select_columns (l # ls) df =
     (case filter (\<lambda>c. fst c = l) (cols df) of
        [] \<Rightarrow> Inl KeyError
      | c # cs \<Rightarrow> bind_res (select_columns ls df) (\<lambda>rest. Inr ((c # cs) @ rest)))"

text \<open>
  \<open>df.loc[row, col]\<close>, read: the one cell at that row and column. A label that is absent is
  a \<open>KeyError\<close>; the code below expects a number, and a label that stands twice gives a
  selection instead, taken here as a \<open>ValueError\<close>.
\<close>

definition loc_get :: "'i \<Rightarrow> 'c \<Rightarrow> ('i, 'c) table \<Rightarrow> error + fl" where
  "loc_get row col df =
     (case filter (\<lambda>c. fst c = col) (cols df) of
        [] \<Rightarrow> Inl KeyError
      | [c] \<Rightarrow>
          (case filter (\<lambda>p. fst p = row) (zip (index df) (snd c)) of
             [] \<Rightarrow> Inl KeyError
           | [p] \<Rightarrow> Inr (snd p)
           | p # q # ps \<Rightarrow> Inl ValueError)
      | c # d # cs \<Rightarrow> Inl ValueError)"

text \<open>
  \<open>df.loc[row, col] = v\<close>: a row label the table does not have is appended as a row of
  NaN, a column label it does not have as a column of NaN; then every cell at that row
  and column is \<open>v\<close>.
\<close>

definition loc_set :: "'i \<Rightarrow> 'c \<Rightarrow> fl \<Rightarrow> ('i, 'c) table \<Rightarrow> ('i, 'c) table" where
  "loc_set row col v df =
     (let idx = (if row \<in> set (index df) then index df else index df @ [row]);
          cs = (if row \<in> set (index df) then cols df
                else map (\<lambda>c. (fst c, snd c @ [NaN])) (cols df));
          cs' = (if col \<in> fst ` set cs then cs else cs @ [(col, replicate (length idx) NaN)])
      in \<lparr>index = idx,
          cols = map (\<lambda>c. if fst c = col
                            then (fst c, map (\<lambda>(i, x). if i = row then v else x) (zip idx (snd c)))
                            else c) cs'\<rparr>)"

text \<open>
  \<open>df.sum().to_frame()\<close> with the one column then named \<open>n\<close>: a row for each column
  of \<open>df\<close>, holding the sum of the column's cells.
\<close>

definition sum_to_frame :: "'n \<Rightarrow> ('i, 'c) table \<Rightarrow> ('c, 'n) table" where
  "sum_to_frame n df =
     \<lparr>index = map fst (cols df), cols = [(n, map (\<lambda>c. fl_sum (snd c)) (cols df))]\<rparr>"

text \<open>\<open>df.max().iloc[0]\<close>: the maximum of the first column.\<close>

definition max_iloc0 :: "('i, 'c) table \<Rightarrow> error + fl" where
  "max_iloc0 df = (case cols df of [] \<Rightarrow> Inl IndexError | c # cs \<Rightarrow> Inr (fl_max (snd c)))"

text \<open>Runs \<open>f\<close> over a list, stopping at the first error.\<close>

fun map_res :: "('a \<Rightarrow> error + 'b) \<Rightarrow> 'a list \<Rightarrow> error + 'b list" where
  "map_res f [] = Inr []"
| "map_res f (x # xs) = bind_res (f x) (\<lambda>y. bind_res (map_res f xs) (\<lambda>ys. Inr (y # ys)))"

section \<open>analysis/site.py: the results of a site\<close>

text \<open>
  \<open>pd.concat({key: df}, axis=1)\<close>: the table \<open>df\<close> with the key put in front of each
  column label.
\<close>

definition keyed :: "'k \<Rightarrow> ('i, 'c) table \<Rightarrow> ('i, 'k \<times> 'c) table" where
  "keyed k df = \<lparr>index = index df, cols = map (\<lambda>c. ((k, fst c), snd c)) (cols df)\<rparr>"

text \<open>
  The loop of \<open>aggregators_additional_demand\<close> and of \<open>aggregators_onsite_generation\<close>:
  each pass appends the table of one aggregator to \<open>frames\<close> and joins all of \<open>frames\<close>
  side by side; without aggregator the result is the empty table the loop starts from.
\<close>

fun frames_loop ::
  "('i, 'c) table list \<Rightarrow> ('i, 'c) table \<Rightarrow> ('i, 'c) table list \<Rightarrow> error + ('i, 'c) table" where
  "frames_loop frames joined [] = Inr joined"
| "frames_loop frames joined (temp_dataf # rest) =
     bind_res (concat_axis1 (frames @ [temp_dataf]))
       (\<lambda>joined. frames_loop (frames @ [temp_dataf]) joined rest)"

definition aggregators_additional_demand ::
  "'i Site \<Rightarrow> error + ('i, string \<times> label) table" where
  "aggregators_additional_demand self =
     frames_loop [] empty_table
       (map (\<lambda>temp_aggregator.
               keyed (agg_name temp_aggregator) (additional_demand temp_aggregator))
          (list_asset_aggregator self))"

definition aggregators_onsite_generation ::
  "'i Site \<Rightarrow> error + ('i, string \<times> label) table" where
  "aggregators_onsite_generation self =
     frames_loop [] empty_table
       (map (\<lambda>temp_aggregator.
               keyed (agg_name temp_aggregator) (onsite_generation temp_aggregator))
          (list_asset_aggregator self))"

text \<open>
  \<open>df.sum(axis=1)\<close>: for each row the sum of its cells, NaN cells skipped.
  \<open>to_frame()\<close> makes of it a table of one column, which the library labels 0.
\<close>

definition sum_axis1 :: "('i, 'c) table \<Rightarrow> fl list" where
  "sum_axis1 df = map (\<lambda>i. fl_sum (map (\<lambda>c. snd c ! i) (cols df))) [0..<length (index df)]"

definition to_frame :: "'i list \<Rightarrow> fl list \<Rightarrow> 'i frame" where
  "to_frame idx vs = \<lparr>index = idx, cols = [(Other ''0'', vs)]\<rparr>"

text \<open>\<open>pd.DataFrame(index=idx, columns=labels)\<close>: a table of NaN cells.\<close>

definition new_frame :: "'i list \<Rightarrow> 'c list \<Rightarrow> ('i, 'c) table" where
  "new_frame idx labels =
     \<lparr>index = idx, cols = map (\<lambda>l. (l, replicate (length idx) NaN)) labels\<rparr>"

definition total_additional_demand :: "'i Site \<Rightarrow> error + 'i frame" where
  "total_additional_demand self =
     (let col_name = get_multiindex_single_column (SiteData ADDITIONAL_ELECTRICITY_DEMAND)
      in bind_res (aggregators_additional_demand self)
           (\<lambda>systems_demand.
              if len systems_demand = 0
              then iloc_set_column0 (Fin 0)
                     (new_frame (index (site_electricity_demand self)) col_name)
              else set_columns col_name
                     (to_frame (index systems_demand) (sum_axis1 systems_demand))))"

definition total_onsite_generation :: "'i Site \<Rightarrow> error + 'i frame" where
  "total_onsite_generation self =
     (let col_name = get_multiindex_single_column (SiteData ELECTRICITY_GENERATION)
      in bind_res (aggregators_onsite_generation self)
           (\<lambda>onsite_gen.
              if len onsite_gen = 0
              then iloc_set_column0 (Fin 0)
                     (new_frame (index (site_electricity_demand self)) col_name)
              else set_columns col_name
                     (to_frame (index onsite_gen) (sum_axis1 onsite_gen))))"

text \<open>
  \<open>Site.export_results\<close>. The total demand is the site's own demand plus the additional
  demand of the aggregators; the net demand, from which import and export are split, is
  the total demand less the onsite generation.
\<close>

definition site_export_results :: "'i Site \<Rightarrow> error + 'i frame" where
  "site_export_results self =
     bind_res (total_additional_demand self)
       (\<lambda>additional.
     bind_res (total_onsite_generation self)
       (\<lambda>on_site_gen.
     bind_res (arith_values fl_add (site_electricity_demand self) (values_of additional))
       (\<lambda>total_elec_demand.
     bind_res (arith_values fl_sub total_elec_demand (values_of on_site_gen))
       (\<lambda>net_elec_demand.
     bind_res (get_import_and_export_demand self net_elec_demand)
       (\<lambda>(import_demand, exported).
     bind_res (get_avoided_electricity_import self on_site_gen exported)
       (\<lambda>avoided_import_electricity.
          concat_axis1
            [import_demand, exported, on_site_gen, additional,
             site_electricity_demand self, avoided_import_electricity]))))))"

section \<open>analysis/scenario.py\<close>

text \<open>
  A site model, by what the protocol makes it report: the dictionaries are the lists of
  their items, and \<open>sm_export_results\<close> is what \<open>export_results()\<close> returns, or raises.
\<close>

record 'i SiteModel =
  size_system :: "(TechnologyType \<times> fl) list"
  capital_cost :: "(TechnologyType \<times> fl) list"
  annual_maintenance_cost :: "(TechnologyType \<times> fl) list"
  sm_export_results :: "error + 'i frame"
  timezone :: string

record 'i Scenario =
  name :: string
  site_model :: "'i SiteModel"
  site_energy_demand :: "'i frame"
  description :: string
  import_electricity_emission_factor :: "'i frame"
  import_electricity_prices :: "'i frame"
  export_electricity_prices :: "'i frame"
  discount_rate :: fl
  summary_results :: "'i frame"
  cashflow_data :: "'i frame"

text \<open>
  The index of the prices is localised to the site model's timezone when it carries no
  timezone, and converted into it otherwise. Both are the table library's, over its
  timezone database: \<open>tz\<close> stands for them, from the timezone and the index to the new
  index, or an error (a local time that does not exist, say).
\<close>

definition format_site_import_electricity_prices ::
  "(string \<Rightarrow> 'i list \<Rightarrow> error + 'i list) \<Rightarrow> 'i Scenario \<Rightarrow> error + 'i Scenario" where
  "format_site_import_electricity_prices tz self =
     (if length (cols (import_electricity_prices self)) = 1
      then bind_res (tz (timezone (site_model self)) (index (import_electricity_prices self)))
             (\<lambda>idx.
           bind_res (set_index idx (import_electricity_prices self))
             (\<lambda>prices.
           bind_res (set_columns
                       (get_multiindex_single_column (Results IMPORT_ELECTRICITY_PRICES)) prices)
             (\<lambda>prices. Inr (self\<lparr>import_electricity_prices := prices\<rparr>))))
      else Inr self)"

definition set_default_import_electricity_emission_factor ::
  "fl \<Rightarrow> 'i Scenario \<Rightarrow> error + 'i Scenario" where
  "set_default_import_electricity_emission_factor v self =
     (if len (import_electricity_emission_factor self) = 0
      then bind_res (set_columns
                       (get_multiindex_single_column (Results GHG_INTENSITY_IMPORT_ELECTRICITY))
                       (import_electricity_prices self))
             (\<lambda>factor.
           bind_res (iloc_set_column0 v factor)
             (\<lambda>factor. Inr (self\<lparr>import_electricity_emission_factor := factor\<rparr>)))
      else Inr self)"

definition set_default_export_electricity_prices ::
  "fl \<Rightarrow> 'i Scenario \<Rightarrow> error + 'i Scenario" where
  "set_default_export_electricity_prices v self =
     (if len (export_electricity_prices self) = 0
      then bind_res (set_columns
                       (get_multiindex_single_column (Results EXPORT_ELECTRICITY_REVENUES))
                       (import_electricity_prices self))
             (\<lambda>prices.
           bind_res (iloc_set_column0 v prices)
             (\<lambda>prices. Inr (self\<lparr>export_electricity_prices := prices\<rparr>)))
      else Inr self)"

definition export_demand :: "'i Scenario \<Rightarrow> error + 'i frame" where
  "export_demand self =
     getitem_column (SiteData EXPORT_ELECTRICITY_DEMAND) (site_energy_demand self)"

definition import_demand :: "'i Scenario \<Rightarrow> error + 'i frame" where
  "import_demand self =
     getitem_column (SiteData IMPORT_ELECTRICITY_DEMAND) (site_energy_demand self)"

definition avoided_import :: "'i Scenario \<Rightarrow> error + 'i frame" where
  "avoided_import self =
     getitem_column (SiteData SELF_CONSUMED_ELECTRICITY) (site_energy_demand self)"

definition onsite_generation_of :: "'i Scenario \<Rightarrow> error + 'i frame" where
  "onsite_generation_of self =
     getitem_column (SiteData ELECTRICITY_GENERATION) (site_energy_demand self)"

definition get_col_name :: "'i Scenario \<Rightarrow> label \<Rightarrow> label" where
  "get_col_name self col = hd (get_multiindex_single_column col)"

text \<open>
  The metrics: a column of the site energy demand times the cells of a price or factor
  table, relabelled.
\<close>

definition metric ::
  "error + 'i frame \<Rightarrow> 'i frame \<Rightarrow> ResultsSchema \<Rightarrow> error + 'i frame" where
  "metric quantity rate result_label =
     bind_res quantity
       (\<lambda>q. bind_res (arith_values fl_mul q (values_of rate))
          (\<lambda>dataf. set_columns (get_multiindex_single_column (Results result_label)) dataf))"

definition calculate_electricity_import_operation_cost :: "'i Scenario \<Rightarrow> error + 'i frame" where
  "calculate_electricity_import_operation_cost self =
     metric (import_demand self) (import_electricity_prices self) IMPORT_ELECTRICITY_COSTS"

definition calculate_electricity_export_operation_cost :: "'i Scenario \<Rightarrow> error + 'i frame" where
  "calculate_electricity_export_operation_cost self =
     metric (export_demand self) (export_electricity_prices self) EXPORT_ELECTRICITY_REVENUES"

definition calculate_electricity_associated_emissions :: "'i Scenario \<Rightarrow> error + 'i frame" where
  "calculate_electricity_associated_emissions self =
     metric (import_demand self) (import_electricity_emission_factor self)
       GHG_EMISSIONS_IMPORT_ELECTRICITY"

definition calculate_site_electricity_avoided_emissions :: "'i Scenario \<Rightarrow> error + 'i frame" where
  "calculate_site_electricity_avoided_emissions self =
     metric (avoided_import self) (import_electricity_emission_factor self)
       SITE_GHG_EMISSIONS_DISPLACED"

definition calculate_total_electricity_avoided_emissions :: "'i Scenario \<Rightarrow> error + 'i frame" where
  "calculate_total_electricity_avoided_emissions self =
     metric (onsite_generation_of self) (import_electricity_emission_factor self)
       TOTAL_GHG_EMISSIONS_DISPLACED"

definition calculate_electricity_operation_cost :: "'i Scenario \<Rightarrow> error + 'i frame" where
  "calculate_electricity_operation_cost self =
     bind_res (calculate_electricity_import_operation_cost self)
       (\<lambda>import_cost.
     bind_res (calculate_electricity_export_operation_cost self)
       (\<lambda>export_cost. concat_axis1 [import_cost, export_cost]))"

definition calculate_electricity_import_savings :: "'i Scenario \<Rightarrow> error + 'i frame" where
  "calculate_electricity_import_savings self =
     metric (avoided_import self) (import_electricity_prices self) ELECTRICITY_SAVINGS"

definition export_results :: "'i Scenario \<Rightarrow> error + 'i frame" where
  "export_results self =
     bind_res (calculate_electricity_operation_cost self)
       (\<lambda>current_cost.
     bind_res (calculate_electricity_associated_emissions self)
       (\<lambda>current_emissions.
     bind_res (calculate_site_electricity_avoided_emissions self)
       (\<lambda>site_avoided_emissions.
     bind_res (calculate_total_electricity_avoided_emissions self)
       (\<lambda>total_avoided_emissions.
     bind_res (calculate_electricity_import_savings self)
       (\<lambda>current_cost_savings.
          concat_axis1
            [site_energy_demand self, current_cost, current_cost_savings, current_emissions,
             site_avoided_emissions, total_avoided_emissions])))))"

definition update_results :: "'i Scenario \<Rightarrow> error + 'i Scenario" where
  "update_results self =
     bind_res (sm_export_results (site_model self))
       (\<lambda>demand.
          bind_res (export_results (self\<lparr>site_energy_demand := demand\<rparr>))
            (\<lambda>results.
               Inr (self\<lparr>site_energy_demand := demand, summary_results := results\<rparr>)))"

text \<open>
  \<open>__post_init__\<close>, run by the constructor on the object that holds the arguments and
  the defaults of the fields not given (empty tables): the two defaults are 0.150 for the
  emission factor and 0 for the export price.
\<close>

definition post_init ::
  "(string \<Rightarrow> 'i list \<Rightarrow> error + 'i list) \<Rightarrow> 'i Scenario \<Rightarrow> error + 'i Scenario" where
  "post_init tz self =
     bind_res (format_site_import_electricity_prices tz self)
       (\<lambda>self.
     bind_res (set_default_import_electricity_emission_factor (Fin 0.150) self)
       (\<lambda>self.
     bind_res (set_default_export_electricity_prices (Fin 0) self)
       (\<lambda>self. update_results self)))"

text \<open>The annual summary: a table with a row for each metric and one column, the scenario's.\<close>

type_synonym summary = "(label, string) table"

definition calculate_total_opex :: "'i Scenario \<Rightarrow> summary \<Rightarrow> error + summary" where
  "calculate_total_opex self summary =
     (let opex_col = get_col_name self (Results OPEX);
          summary = loc_set opex_col (name self)
                      (foldl fl_add (Fin 0) (map snd (annual_maintenance_cost (site_model self))))
                      summary;
          import_costs = get_col_name self (Results IMPORT_ELECTRICITY_COSTS);
          export_revenues = get_col_name self (Results EXPORT_ELECTRICITY_REVENUES)
      in bind_res (loc_get opex_col (name self) summary)
           (\<lambda>opex.
         bind_res (loc_get import_costs (name self) summary)
           (\<lambda>costs.
         bind_res (loc_get export_revenues (name self) summary)
           (\<lambda>revenues.
              Inr (loc_set opex_col (name self) (fl_sub (fl_add opex costs) revenues) summary)))))"

definition get_capex_by_technology :: "'i Scenario \<Rightarrow> summary \<Rightarrow> summary" where
  "get_capex_by_technology self summary =
     foldl (\<lambda>summary (tech_name, tech_capex).
              loc_set (ByTechnology tech_name CAPEX) (name self) tech_capex summary)
       summary (capital_cost (site_model self))"

definition get_capacity_by_technology :: "'i Scenario \<Rightarrow> summary \<Rightarrow> summary" where
  "get_capacity_by_technology self summary =
     foldl (\<lambda>summary (tech_name, tech_cap).
              loc_set (ByTechnology tech_name CAPACITY_INSTALLED) (name self) tech_cap summary)
       summary (size_system (site_model self))"

definition get_summary_results :: "'i Scenario \<Rightarrow> error + summary" where
  "get_summary_results self =
     (let summary = sum_to_frame (name self) (summary_results self);
          peak_import_col = get_col_name self (Results PEAK_ELECTRICITY_IMPORT)
      in bind_res (import_demand self)
           (\<lambda>imports.
         bind_res (max_iloc0 imports)
           (\<lambda>peak_import.
         (let summary = loc_set peak_import_col (name self) (fl_mul peak_import (Fin 2)) summary;
              peak_export_col = get_col_name self (Results PEAK_ELECTRICITY_EXPORT)
          in bind_res (export_demand self)
               (\<lambda>exports.
             bind_res (max_iloc0 exports)
               (\<lambda>peak_export.
             (let summary =
                    loc_set peak_export_col (name self) (fl_mul peak_export (Fin 2)) summary;
                  summary = get_capex_by_technology self summary
              in bind_res (calculate_total_opex self summary)
                   (\<lambda>summary. Inr (get_capacity_by_technology self summary)))))))))"

section \<open>analysis/comparison.py\<close>

record 'i ScenarioComparison =
  reference_scenario :: "'i Scenario"
  list_scenarios :: "'i Scenario list"
  cached_summary_results :: summary

text \<open>
  The property \<open>summary_results\<close>: it stores the table it builds in the field
  \<open>_summary_results\<close> (here \<open>cached_summary_results\<close>) and returns it. Scenario names sort
  as Python strings do, character by character.
\<close>

definition comparison_summary_results ::
  "'i ScenarioComparison \<Rightarrow> error + ('i ScenarioComparison \<times> summary)" where
  "comparison_summary_results self =
     bind_res (map_res get_summary_results (list_scenarios self))
       (\<lambda>frames.
     bind_res (concat_axis1 frames)
       (\<lambda>joined.
     bind_res (select_columns (sort (map fst (cols joined))) joined)
       (\<lambda>sorted_cols.
          (let result = \<lparr>index = index joined, cols = sorted_cols\<rparr>
           in Inr (self\<lparr>cached_summary_results := result\<rparr>, result)))))"

definition comparison_results ::
  "'i ScenarioComparison \<Rightarrow> error + ('i ScenarioComparison \<times> summary)" where
  "comparison_results self =
     bind_res (get_summary_results (reference_scenario self))
       (\<lambda>ref_summary.
     bind_res (comparison_summary_results self)
       (\<lambda>(self, summary).
     bind_res (arith_values fl_sub summary (values_of ref_summary))
       (\<lambda>delta.
     bind_res (arith_values fl_div delta (values_of ref_summary))
       (\<lambda>result. Inr (self, result)))))"

section \<open>Tables in a store\<close>

text \<open>
  The tables above are values: they cannot tell a copy of a table from a view of it. For
  that the cells of a column live in a buffer of a store, and a table holds, for each
  column, the address of its buffer. The store is the list of the buffers allocated so
  far, the address of a buffer its position. The index of a table cannot be written in
  place, so a table holds its row labels themselves.
\<close>

type_synonym store = "fl list list"

record ('i, 'c) table_ref =
  ref_index :: "'i list"
  ref_cols :: "('c \<times> nat) list"

text \<open>The table that a reference stands for in a store.\<close>

definition deref :: "store \<Rightarrow> ('i, 'c) table_ref \<Rightarrow> ('i, 'c) table" where
  "deref st df = \<lparr>index = ref_index df, cols = map (\<lambda>c. (fst c, st ! snd c)) (ref_cols df)\<rparr>"

definition allocated :: "store \<Rightarrow> ('i, 'c) table_ref \<Rightarrow> bool" where
  "allocated st df = list_all (\<lambda>c. snd c < length st) (ref_cols df)"

text \<open>
  \<open>df[col_name].to_frame()\<close>: a table on the buffer of the selected column itself, a view.
\<close>

definition getitem_column_ref ::
  "'c \<Rightarrow> ('i, 'c) table_ref \<Rightarrow> error + ('i, 'c) table_ref" where
  "getitem_column_ref col_name df =
     (case filter (\<lambda>c. fst c = col_name) (ref_cols df) of
        [] \<Rightarrow> Inl KeyError
      | [c] \<Rightarrow> Inr \<lparr>ref_index = ref_index df, ref_cols = [c]\<rparr>
      | c # d # cs \<Rightarrow> Inl AttributeError)"

text \<open>\<open>df.copy()\<close>: each column gets a new buffer, with the cells of the old one.\<close>

fun copy_cols :: "store \<Rightarrow> ('c \<times> nat) list \<Rightarrow> ('c \<times> nat) list \<times> store" where
  "copy_cols st [] = ([], st)"
| "copy_cols st (c # cs) =
     (case copy_cols (st @ [st ! snd c]) cs of
        (cs', st') \<Rightarrow> ((fst c, length st) # cs', st'))"

definition copy_ref ::
  "('i, 'c) table_ref \<Rightarrow> store \<Rightarrow> ('i, 'c) table_ref \<times> store" where
  "copy_ref df st = (case copy_cols st (ref_cols df) of (cs, st') \<Rightarrow> (df\<lparr>ref_cols := cs\<rparr>, st'))"

text \<open>
  \<open>df.iloc[i, j] = v\<close>: the cell is written in the buffer of the column; a position
  outside the table is an \<open>IndexError\<close>.
\<close>

definition iloc_set_ref ::
  "nat \<Rightarrow> nat \<Rightarrow> fl \<Rightarrow> ('i, 'c) table_ref \<Rightarrow> store \<Rightarrow> error + store" where
  "iloc_set_ref i j v df st =
     (if i < length (ref_index df) \<and> j < length (ref_cols df)
      then Inr (st[snd (ref_cols df ! j) := (st ! snd (ref_cols df ! j))[i := v]])
      else Inl IndexError)"

text \<open>
  The writes of a caller into a table, cell by cell; a write that raises leaves the
  store as it is.
\<close>

fun mutate :: "(nat \<times> nat \<times> fl) list \<Rightarrow> ('i, 'c) table_ref \<Rightarrow> store \<Rightarrow> store" where
  "mutate [] df st = st"
| "mutate (w # ws) df st =
     (case iloc_set_ref (fst w) (fst (snd w)) (snd (snd w)) df st of
        Inl e \<Rightarrow> mutate ws df st
      | Inr st' \<Rightarrow> mutate ws df st')"

text \<open>
  The four accessors of a scenario, on the reference \<open>demand\<close> that its field
  \<open>site_energy_demand\<close> holds: \<open>self.site_energy_demand[col_name].to_frame().copy()\<close>.
  They return the new table and the store with the buffer allocated for it.
\<close>

definition export_demand_ref ::
  "('i, label) table_ref \<Rightarrow> store \<Rightarrow> error + (('i, label) table_ref \<times> store)" where
  "export_demand_ref demand st =
     bind_res (getitem_column_ref (SiteData EXPORT_ELECTRICITY_DEMAND) demand)
       (\<lambda>view. Inr (copy_ref view st))"

definition import_demand_ref ::
  "('i, label) table_ref \<Rightarrow> store \<Rightarrow> error + (('i, label) table_ref \<times> store)" where
  "import_demand_ref demand st =
     bind_res (getitem_column_ref (SiteData IMPORT_ELECTRICITY_DEMAND) demand)
       (\<lambda>view. Inr (copy_ref view st))"

definition avoided_import_ref ::
  "('i, label) table_ref \<Rightarrow> store \<Rightarrow> error + (('i, label) table_ref \<times> store)" where
  "avoided_import_ref demand st =
     bind_res (getitem_column_ref (SiteData SELF_CONSUMED_ELECTRICITY) demand)
       (\<lambda>view. Inr (copy_ref view st))"

definition onsite_generation_ref ::
  "('i, label) table_ref \<Rightarrow> store \<Rightarrow> error + (('i, label) table_ref \<times> store)" where
  "onsite_generation_ref demand st =
     bind_res (getitem_column_ref (SiteData ELECTRICITY_GENERATION) demand)
       (\<lambda>view. Inr (copy_ref view st))"

section \<open>Sample inputs\<close>

definition week_sample :: feature_table where
  "week_sample =
     \<lparr> nrows = 4,
       column = (\<lambda>c. if c = DAYOFWEEK then Some [0, 0, 5, 6]
                     else if c = HALFHOUR then Some [20, 40, 20, 47] else None) \<rparr>"

definition net_demand_sample :: "nat frame" where
  "net_demand_sample =
     \<lparr>index = [0, 1, 2], cols = [(Other ''net'', [Fin (- 5), Fin 0, Fin 5])]\<rparr>"

definition site_sample :: "nat Site" where
  "site_sample =
     \<lparr>site_name = ''depot'',
      geolocation = \<lparr>geo_name = ''depot'', latitude = Fin 52, longitude = Fin 0,
                      altitude = Fin 10, geo_timezone = ''Europe/London''\<rparr>,
      list_asset_aggregator = [],
      site_electricity_demand =
        \<lparr>index = [0, 1, 2],
         cols = [(SiteData INIT_SITE_ELECTRICITY_DEMAND, [Fin 4, Fin 6, Fin 3])]\<rparr>,
      saving_path = ''../''\<rparr>"

definition onsite_gen_sample :: "nat frame" where
  "onsite_gen_sample =
     \<lparr>index = [0, 1, 2], cols = [(SiteData ELECTRICITY_GENERATION, [Fin 9, Fin 2, Fin 3])]\<rparr>"

definition export_demand_sample :: "nat frame" where
  "export_demand_sample =
     \<lparr>index = [0, 1, 2], cols = [(SiteData EXPORT_ELECTRICITY_DEMAND, [Fin 5, Fin 0, Fin 0])]\<rparr>"

definition site_model_sample :: "nat SiteModel" where
  "site_model_sample =
     \<lparr>size_system = [(PV, Fin 5)],
      capital_cost = [(PV, Fin 1000)],
      annual_maintenance_cost = [(PV, Fin 10)],
      sm_export_results =
        Inr \<lparr>index = [0, 1],
             cols = [(SiteData IMPORT_ELECTRICITY_DEMAND, [Fin 3, Fin 1]),
                     (SiteData EXPORT_ELECTRICITY_DEMAND, [Fin 0, Fin 0]),
                     (SiteData ELECTRICITY_GENERATION, [Fin 1, Fin 2]),
                     (SiteData ADDITIONAL_ELECTRICITY_DEMAND, [Fin 0, Fin 0]),
                     (SiteData INIT_SITE_ELECTRICITY_DEMAND, [Fin 4, Fin 3]),
                     (SiteData SELF_CONSUMED_ELECTRICITY, [Fin 1, Fin 2])]\<rparr>,
      timezone = ''UTC''\<rparr>"

text \<open>The arguments of a constructor call that gives the name, the site model and the
  import prices, and leaves every other field at its default.\<close>

definition scenario_args_sample :: "nat Scenario" where
  "scenario_args_sample =
     \<lparr>name = ''base'',
      site_model = site_model_sample,
      site_energy_demand = empty_table,
      description = '''',
      import_electricity_emission_factor = empty_table,
      import_electricity_prices =
        \<lparr>index = [0, 1], cols = [(Other ''price'', [Fin 2, Fin 4])]\<rparr>,
      export_electricity_prices = empty_table,
      discount_rate = Fin 0,
      summary_results = empty_table,
      cashflow_data = empty_table\<rparr>"

text \<open>A timezone step that leaves the index as it is.\<close>

definition tz_sample :: "string \<Rightarrow> nat list \<Rightarrow> error + nat list" where
  "tz_sample zone idx = Inr idx"

text \<open>The scenario that the constructor makes of these arguments.\<close>

definition scenario_sample :: "nat Scenario" where
  "scenario_sample =
     \<lparr>name = ''base'',
      site_model = site_model_sample,
      site_energy_demand =
        \<lparr>index = [0, 1],
         cols = [(SiteData IMPORT_ELECTRICITY_DEMAND, [Fin 3, Fin 1]),
                 (SiteData EXPORT_ELECTRICITY_DEMAND, [Fin 0, Fin 0]),
                 (SiteData ELECTRICITY_GENERATION, [Fin 1, Fin 2]),
                 (SiteData ADDITIONAL_ELECTRICITY_DEMAND, [Fin 0, Fin 0]),
                 (SiteData INIT_SITE_ELECTRICITY_DEMAND, [Fin 4, Fin 3]),
                 (SiteData SELF_CONSUMED_ELECTRICITY, [Fin 1, Fin 2])]\<rparr>,
      description = '''',
      import_electricity_emission_factor =
        \<lparr>index = [0, 1],
         cols = [(Results GHG_INTENSITY_IMPORT_ELECTRICITY, [Fin 0.150, Fin 0.150])]\<rparr>,
      import_electricity_prices =
        \<lparr>index = [0, 1], cols = [(Results IMPORT_ELECTRICITY_PRICES, [Fin 2, Fin 4])]\<rparr>,
      export_electricity_prices =
        \<lparr>index = [0, 1], cols = [(Results EXPORT_ELECTRICITY_REVENUES, [Fin 0, Fin 0])]\<rparr>,
      discount_rate = Fin 0,
      summary_results =
        \<lparr>index = [0, 1],
         cols = [(SiteData IMPORT_ELECTRICITY_DEMAND, [Fin 3, Fin 1]),
                 (SiteData EXPORT_ELECTRICITY_DEMAND, [Fin 0, Fin 0]),
                 (SiteData ELECTRICITY_GENERATION, [Fin 1, Fin 2]),
                 (SiteData ADDITIONAL_ELECTRICITY_DEMAND, [Fin 0, Fin 0]),
                 (SiteData INIT_SITE_ELECTRICITY_DEMAND, [Fin 4, Fin 3]),
                 (SiteData SELF_CONSUMED_ELECTRICITY, [Fin 1, Fin 2]),
                 (Results IMPORT_ELECTRICITY_COSTS, [Fin 6, Fin 4]),
                 (Results EXPORT_ELECTRICITY_REVENUES, [Fin 0, Fin 0]),
                 (Results ELECTRICITY_SAVINGS, [Fin 2, Fin 8]),
                 (Results GHG_EMISSIONS_IMPORT_ELECTRICITY, [Fin 0.45, Fin 0.15]),
                 (Results SITE_GHG_EMISSIONS_DISPLACED, [Fin 0.15, Fin 0.3]),
                 (Results TOTAL_GHG_EMISSIONS_DISPLACED, [Fin 0.15, Fin 0.3])]\<rparr>,
      cashflow_data = empty_table\<rparr>"

text \<open>A site with one aggregator that both generates and adds demand, over one half hour.\<close>

definition aggregator_sample :: "nat AssetAggregator" where
  "aggregator_sample =
     \<lparr>agg_name = ''canopy'',
      agg_size_system = [(PV, Fin 5)],
      agg_capital_cost = [(PV, Fin 1000)],
      agg_annual_maintenance_cost = [(PV, Fin 10)],
      lifetime = 25,
      additional_demand =
        \<lparr>index = [0], cols = [(SiteData ADDITIONAL_ELECTRICITY_DEMAND, [Fin 3])]\<rparr>,
      onsite_generation =
        \<lparr>index = [0], cols = [(SiteData ELECTRICITY_GENERATION, [Fin 9])]\<rparr>\<rparr>"

definition site_aggregator_sample :: "nat Site" where
  "site_aggregator_sample =
     \<lparr>site_name = ''depot'',
      geolocation = \<lparr>geo_name = ''depot'', latitude = Fin 52, longitude = Fin 0,
                      altitude = Fin 10, geo_timezone = ''Europe/London''\<rparr>,
      list_asset_aggregator = [aggregator_sample],
      site_electricity_demand =
        \<lparr>index = [0], cols = [(SiteData INIT_SITE_ELECTRICITY_DEMAND, [Fin 4])]\<rparr>,
      saving_path = ''../''\<rparr>"

text \<open>
  A second scenario, the sample scenario under another name and with a dearer site model,
  and the comparison of the two with the sample scenario as the reference.
\<close>

definition scenario_alt_sample :: "nat Scenario" where
  "scenario_alt_sample =
     scenario_sample\<lparr>name := ''alt'',
                      site_model := site_model_sample\<lparr>capital_cost := [(PV, Fin 2000)]\<rparr>\<rparr>"

definition comparison_sample :: "nat ScenarioComparison" where
  "comparison_sample =
     \<lparr>reference_scenario = scenario_sample,
      list_scenarios = [scenario_sample, scenario_alt_sample],
      cached_summary_results = empty_table\<rparr>"

text \<open>The site energy demand of the sample scenario, in a store of six buffers.\<close>

definition store_sample :: store where
  "store_sample =
     [[Fin 3, Fin 1], [Fin 0, Fin 0], [Fin 1, Fin 2], [Fin 0, Fin 0], [Fin 4, Fin 3],
      [Fin 1, Fin 2]]"

definition demand_ref_sample :: "(nat, label) table_ref" where
  "demand_ref_sample =
     \<lparr>ref_index = [0, 1],
      ref_cols = [(SiteData IMPORT_ELECTRICITY_DEMAND, 0),
                  (SiteData EXPORT_ELECTRICITY_DEMAND, 1),
                  (SiteData ELECTRICITY_GENERATION, 2),
                  (SiteData ADDITIONAL_ELECTRICITY_DEMAND, 3),
                  (SiteData INIT_SITE_ELECTRICITY_DEMAND, 4),
                  (SiteData SELF_CONSUMED_ELECTRICITY, 5)]\<rparr>"

section \<open>Summaries as maps\<close>


text \<open>
  The rows of a summary of one column, as pairs of a label and a cell, and what an
  assignment \<open>summary.loc[row, n] = v\<close> makes of them: every row under the label takes
  the cell, and a label that is not there is appended.
\<close>

definition summary_rows :: "('i, 'n) table \<Rightarrow> ('i \<times> fl) list" where
  "summary_rows t = zip (index t) (snd (hd (cols t)))"

definition set_row :: "'a \<Rightarrow> 'b \<Rightarrow> ('a \<times> 'b) list \<Rightarrow> ('a \<times> 'b) list" where
  "set_row row v rs =
     (if row \<in> fst ` set rs then map (\<lambda>p. if fst p = row then (fst p, v) else p) rs
      else rs @ [(row, v)])"

text \<open>
  \<open>keeps W rs rs'\<close>: the rows \<open>rs\<close> are still there at the head of \<open>rs'\<close>, with their cells
  unless their label is in \<open>W\<close>. \<open>holds l v rs\<close>: there is a row under \<open>l\<close>, and every
  such row has the cell \<open>v\<close>.
\<close>

definition keeps :: "'a set \<Rightarrow> ('a \<times> 'b) list \<Rightarrow> ('a \<times> 'b) list \<Rightarrow> bool" where
  "keeps W rs rs' \<longleftrightarrow>
     length rs \<le> length rs' \<and>
     (\<forall>i < length rs. fst (rs' ! i) = fst (rs ! i) \<and> (fst (rs ! i) \<notin> W \<longrightarrow> rs' ! i = rs ! i))"

definition holds :: "'a \<Rightarrow> 'b \<Rightarrow> ('a \<times> 'b) list \<Rightarrow> bool" where
  "holds l v rs \<longleftrightarrow> l \<in> fst ` set rs \<and> (\<forall>p \<in> set rs. fst p = l \<longrightarrow> snd p = v)"

section \<open>Enumeration lookups\<close>

lemma by_value_None_iff:
  "by_value ms v = None \<longleftrightarrow> \<not> (\<exists>m w. (m, w) \<in> set ms \<and> py_eq w v)"
  by (induction ms) (auto split: if_splits, blast+)

text \<open>
  C7. Constructing a \<open>PhysicalQuantity\<close> or an \<open>EnergyCarrier\<close> from a raw value never
  raises: the call always returns a member; a value that equals no declared member's
  value gives \<open>UNCATEGORIZED\<close>, respectively \<open>NONE\<close>; and the value of a declared member
  gives that member.
\<close>

theorem enum_lookup_never_fails:
  "(\<exists>m. PhysicalQuantity_call v = Inr m) \<and>
   (\<exists>c. EnergyCarrier_call v = Inr c) \<and>
   (\<not> (\<exists>m w. (m, w) \<in> set PhysicalQuantity_members \<and> py_eq w v) \<longrightarrow>
      PhysicalQuantity_call v = Inr PhysicalQuantity.UNCATEGORIZED) \<and>
   (\<not> (\<exists>m w. (m, w) \<in> set EnergyCarrier_members \<and> py_eq w v) \<longrightarrow>
      EnergyCarrier_call v = Inr NONE) \<and>
   (value_of PhysicalQuantity_members q = Some v \<longrightarrow> PhysicalQuantity_call v = Inr q) \<and>
   (value_of EnergyCarrier_members e = Some v \<longrightarrow> EnergyCarrier_call v = Inr e)"
proof -
  have total_q: "\<exists>m. PhysicalQuantity_call v = Inr m"
    by (simp add: PhysicalQuantity_call_def enum_call_def PhysicalQuantity_missing_def
        split: option.split)
  have total_e: "\<exists>c. EnergyCarrier_call v = Inr c"
    by (simp add: EnergyCarrier_call_def enum_call_def EnergyCarrier_missing_def
        split: option.split)
  have miss_q: "\<not> (\<exists>m w. (m, w) \<in> set PhysicalQuantity_members \<and> py_eq w v) \<longrightarrow>
      PhysicalQuantity_call v = Inr PhysicalQuantity.UNCATEGORIZED"
    unfolding by_value_None_iff [symmetric]
    by (simp add: PhysicalQuantity_call_def enum_call_def PhysicalQuantity_missing_def)
  have miss_e: "\<not> (\<exists>m w. (m, w) \<in> set EnergyCarrier_members \<and> py_eq w v) \<longrightarrow>
      EnergyCarrier_call v = Inr NONE"
    unfolding by_value_None_iff [symmetric]
    by (simp add: EnergyCarrier_call_def enum_call_def EnergyCarrier_missing_def)
  have hit_q: "value_of PhysicalQuantity_members q = Some v \<longrightarrow> PhysicalQuantity_call v = Inr q"
    by (cases q)
      (auto simp: value_of_def PhysicalQuantity_members_def PhysicalQuantity_call_def
        enum_call_def py_eq_def)
  have hit_e: "value_of EnergyCarrier_members e = Some v \<longrightarrow> EnergyCarrier_call v = Inr e"
    by (cases e)
      (auto simp: value_of_def EnergyCarrier_members_def EnergyCarrier_call_def
        enum_call_def py_eq_def)
  from total_q total_e miss_q miss_e hit_q hit_e show ?thesis by blast
qed

theorem enum_lookup_never_fails_witness:
  "\<not> (\<exists>m w. (m, w) \<in> set PhysicalQuantity_members \<and> py_eq w (PyStr ''pressure'')) \<and>
   PhysicalQuantity_call (PyStr ''pressure'') = Inr PhysicalQuantity.UNCATEGORIZED \<and>
   \<not> (\<exists>m w. (m, w) \<in> set EnergyCarrier_members \<and> py_eq w (PyInt 0)) \<and>
   EnergyCarrier_call (PyInt 0) = Inr NONE \<and>
   value_of PhysicalQuantity_members MASS = Some (PyInt 4) \<and>
   PhysicalQuantity_call (PyInt 4) = Inr MASS \<and>
   value_of EnergyCarrier_members HEATING = Some (PyInt 3) \<and>
   EnergyCarrier_call (PyInt 3) = Inr HEATING \<and>
   EnergyCarrier_call (PyFloat 2) = Inr NATURALGAS"
proof -
  have a: "\<not> (\<exists>m w. (m, w) \<in> set PhysicalQuantity_members \<and> py_eq w (PyStr ''pressure''))"
    by (auto simp: PhysicalQuantity_members_def py_eq_def)
  have b: "\<not> (\<exists>m w. (m, w) \<in> set EnergyCarrier_members \<and> py_eq w (PyInt 0))"
    by (auto simp: EnergyCarrier_members_def py_eq_def)
  have c: "value_of PhysicalQuantity_members MASS = Some (PyInt 4)"
    by (simp add: PhysicalQuantity_members_def value_of_def)
  have d: "value_of EnergyCarrier_members HEATING = Some (PyInt 3)"
    by (simp add: EnergyCarrier_members_def value_of_def)
  have e: "EnergyCarrier_call (PyFloat 2) = Inr NATURALGAS"
    by (simp add: EnergyCarrier_members_def EnergyCarrier_call_def enum_call_def py_eq_def)
  from a b c d e
    enum_lookup_never_fails [of "PyStr ''pressure''" MASS HEATING]
    enum_lookup_never_fails [of "PyInt 0" MASS HEATING]
    enum_lookup_never_fails [of "PyInt 4" MASS HEATING]
    enum_lookup_never_fails [of "PyInt 3" MASS HEATING]
  show ?thesis by blast
qed

section \<open>Time features\<close>

lemma add_time_features_length: "length (add_time_features dataf) = length dataf"
  by (simp add: add_time_features_def)

text \<open>
  C9. \<open>add_time_features\<close> sets the half-hour column of every row to hour times 2 plus
  minute divided by 30, the division dropping the remainder; the index is kept, and a
  row at 13:30 gets 27.
\<close>

theorem add_time_features_halfhour:
  "map fst (add_time_features dataf) = map fst dataf \<and>
   map (\<lambda>r. f_HALFHOUR (snd r)) (add_time_features dataf) =
     map (\<lambda>r. int (hour (fst r)) * 2 + int (minute (fst r)) div 30) dataf \<and>
   (\<forall>r \<in> set (add_time_features dataf).
      hour (fst r) = 13 \<and> minute (fst r) = 30 \<longrightarrow> f_HALFHOUR (snd r) = 27)"
proof -
  have idx: "map fst (add_time_features dataf) = map fst dataf"
    by (induction dataf) (auto simp: add_time_features_def)
  have hh: "map (\<lambda>r. f_HALFHOUR (snd r)) (add_time_features dataf) =
     map (\<lambda>r. int (hour (fst r)) * 2 + int (minute (fst r)) div 30) dataf"
    by (induction dataf) (auto simp: add_time_features_def time_features_def zdiv_int)
  have at: "\<forall>r \<in> set (add_time_features dataf).
      hour (fst r) = 13 \<and> minute (fst r) = 30 \<longrightarrow> f_HALFHOUR (snd r) = 27"
    by (auto simp: add_time_features_def time_features_def)
  from idx hh at show ?thesis by blast
qed

theorem add_time_features_halfhour_witness:
  "map (\<lambda>r. f_HALFHOUR (snd r))
     (add_time_features
        [(\<lparr>year = 2024, month = 3, day = 4, hour = 13, minute = 30, second = 0,
            dayofweek = 0, dayofyear = 64, week = 10\<rparr>, 7 :: int),
         (\<lparr>year = 2024, month = 3, day = 4, hour = 23, minute = 59, second = 0,
            dayofweek = 0, dayofyear = 64, week = 10\<rparr>, 8)]) = [27, 47]"
  using add_time_features_halfhour
    [of "[(\<lparr>year = 2024, month = 3, day = 4, hour = 13, minute = 30, second = 0,
            dayofweek = 0, dayofyear = 64, week = 10\<rparr>, 7 :: int),
         (\<lparr>year = 2024, month = 3, day = 4, hour = 23, minute = 59, second = 0,
            dayofweek = 0, dayofyear = 64, week = 10\<rparr>, 8)]"]
  by simp

section \<open>Occupancy schedule\<close>

lemma and_operator_length [simp]:
  "length (and_operator a b) = min (length a) (length b)"
  by (simp add: and_operator_def)

lemma or_operator_length [simp]:
  "length (or_operator a b) = min (length a) (length b)"
  by (simp add: or_operator_def)

lemma and_operator_nth [simp]:
  "i < length a \<Longrightarrow> i < length b \<Longrightarrow> and_operator a b ! i = (a ! i \<and> b ! i)"
  by (simp add: and_operator_def)

lemma or_operator_nth [simp]:
  "i < length a \<Longrightarrow> i < length b \<Longrightarrow> or_operator a b ! i = (a ! i \<or> b ! i)"
  by (simp add: or_operator_def)

text \<open>
  With the default map and the half-hour column, the filter of a table that carries both
  columns flags exactly the rows of Monday to Friday whose half-hour lies in 16..34.
\<close>

lemma get_filter_default:
  assumes dow: "column dataf DAYOFWEEK = Some ds"
    and hh: "column dataf HALFHOUR = Some hs"
    and lds: "length ds = nrows dataf"
    and lhs: "length hs = nrows dataf"
  shows "\<exists>filt. get_filter (new_OccupancySchedule None HALFHOUR) dataf = Inr filt \<and>
           length filt = nrows dataf \<and>
           (\<forall>i < nrows dataf.
              filt ! i = (0 \<le> ds ! i \<and> ds ! i \<le> 4 \<and> 16 \<le> hs ! i \<and> hs ! i \<le> 34))"
proof -
  let ?filt = "\<lambda>f. length f = nrows dataf \<and>
           (\<forall>i < nrows dataf.
              f ! i = (0 \<le> ds ! i \<and> ds ! i \<le> 4 \<and> 16 \<le> hs ! i \<and> hs ! i \<le> 34))"
  obtain f where f: "get_filter (new_OccupancySchedule None HALFHOUR) dataf = Inr f"
    by (simp add: get_filter_def new_OccupancySchedule_def schedule_post_init_def
        default_occupancy_def dow hh)
  have "?filt f"
    using f lds lhs
    by (auto simp: get_filter_def new_OccupancySchedule_def schedule_post_init_def
        default_occupancy_def dow hh)
  with f show ?thesis by blast
qed

text \<open>
  C6. For the schedule constructed without a map at the half-hour timestep, and a table
  carrying the day-of-week and half-hour columns, \<open>get_filter\<close> flags a row of Monday
  (day 0) at half-hour 20, does not flag a row of Monday at half-hour 40, and flags no
  row of Saturday or Sunday (day 5 or 6), whatever its half-hour.
\<close>

theorem get_filter_default_schedule:
  assumes "column dataf DAYOFWEEK = Some ds"
    and "column dataf HALFHOUR = Some hs"
    and "length ds = nrows dataf"
    and "length hs = nrows dataf"
  shows "\<exists>filt. get_filter (new_OccupancySchedule None HALFHOUR) dataf = Inr filt \<and>
           length filt = nrows dataf \<and>
           (\<forall>i < nrows dataf.
              (ds ! i = 0 \<and> hs ! i = 20 \<longrightarrow> filt ! i) \<and>
              (ds ! i = 0 \<and> hs ! i = 40 \<longrightarrow> \<not> filt ! i) \<and>
              (ds ! i = 5 \<or> ds ! i = 6 \<longrightarrow> \<not> filt ! i))"
proof -
  from get_filter_default [OF assms] obtain filt where
    r: "get_filter (new_OccupancySchedule None HALFHOUR) dataf = Inr filt"
    and l: "length filt = nrows dataf"
    and c: "\<forall>i < nrows dataf.
              filt ! i = (0 \<le> ds ! i \<and> ds ! i \<le> 4 \<and> 16 \<le> hs ! i \<and> hs ! i \<le> 34)"
    by blast
  from c have "\<forall>i < nrows dataf.
              (ds ! i = 0 \<and> hs ! i = 20 \<longrightarrow> filt ! i) \<and>
              (ds ! i = 0 \<and> hs ! i = 40 \<longrightarrow> \<not> filt ! i) \<and>
              (ds ! i = 5 \<or> ds ! i = 6 \<longrightarrow> \<not> filt ! i)"
    by auto
  with r l show ?thesis by blast
qed

theorem get_filter_default_schedule_witness:
  "get_filter (new_OccupancySchedule None HALFHOUR) week_sample
     = Inr [True, False, False, False]"
proof -
  have a: "column week_sample DAYOFWEEK = Some [0, 0, 5, 6]"
    and b: "column week_sample HALFHOUR = Some [20, 40, 20, 47]"
    and c: "length [0, 0, 5, 6 :: int] = nrows week_sample"
    and d: "length [20, 40, 20, 47 :: int] = nrows week_sample"
    by (simp_all add: week_sample_def)
  from get_filter_default_schedule [OF a b c d] obtain filt where
    r: "get_filter (new_OccupancySchedule None HALFHOUR) week_sample = Inr filt"
    and l: "length filt = 4"
    and p: "\<forall>i < 4.
              ([0, 0, 5, 6 :: int] ! i = 0 \<and> [20, 40, 20, 47 :: int] ! i = 20 \<longrightarrow> filt ! i) \<and>
              ([0, 0, 5, 6 :: int] ! i = 0 \<and> [20, 40, 20, 47 :: int] ! i = 40 \<longrightarrow> \<not> filt ! i) \<and>
              ([0, 0, 5, 6 :: int] ! i = 5 \<or> [0, 0, 5, 6 :: int] ! i = 6 \<longrightarrow> \<not> filt ! i)"
    by (auto simp: week_sample_def)
  from p have "filt ! 0" "\<not> filt ! 1" "\<not> filt ! 2" "\<not> filt ! 3"
    by (simp_all add: numeral_nat)
  moreover from l obtain w x y z where "filt = [w, x, y, z]"
    by (auto simp: length_Suc_conv numeral_eq_Suc)
  ultimately have "filt = [True, False, False, False]" by (simp add: numeral_nat)
  with r show ?thesis by simp
qed

section \<open>Dummy price profile\<close>

text \<open>
  What the inner loop leaves in a cell: the rate of the first band that holds the time of
  day, or the cell as it was when no band holds it.
\<close>

definition cell_after ::
  "(time_of_day \<times> time_of_day \<times> real) list \<Rightarrow> time_of_day \<Rightarrow> fl \<Rightarrow> fl" where
  "cell_after bands tod c =
     (case find (\<lambda>b. in_band b tod) bands of None \<Rightarrow> c | Some b \<Rightarrow> Fin (band_rate b))"

lemma cell_after_Nil: "cell_after [] tod c = c"
  by (simp add: cell_after_def)

lemma cell_after_Cons:
  "cell_after (b # bands) tod c =
     (if in_band b tod then Fin (band_rate b) else cell_after bands tod c)"
  by (simp add: cell_after_def)

lemma cell_after_idem:
  "cell_after bands tod (cell_after bands tod c) = cell_after bands tod c"
  by (simp add: cell_after_def split: option.split)

lemma bands_loop_cell_after:
  "bands_loop bands ts tbl =
     map (\<lambda>(t, c). if t = ts then (t, cell_after bands (time_of ts) c) else (t, c)) tbl"
proof (induction bands)
  case Nil
  show ?case by (induction tbl) (auto simp: cell_after_Nil)
next
  case (Cons b bands)
  obtain s e r where b: "b = (s, e, r)" by (cases b)
  show ?case using Cons
    by (auto simp: b cell_after_Cons in_band_def band_rate_def loc_set_cell_def)
qed

lemma foldl_bands_loop:
  "foldl (\<lambda>p ts. bands_loop bands ts p) tbl tss =
     map (\<lambda>(t, c). if t \<in> set tss then (t, cell_after bands (time_of t) c) else (t, c)) tbl"
proof (induction tss arbitrary: tbl)
  case Nil
  show ?case by (induction tbl) auto
next
  case (Cons a tss)
  have "foldl (\<lambda>p ts. bands_loop bands ts p) tbl (a # tss) =
          foldl (\<lambda>p ts. bands_loop bands ts p) (bands_loop bands a tbl) tss"
    by simp
  also have "\<dots> =
      map (\<lambda>(t, c). if t \<in> set tss then (t, cell_after bands (time_of t) c) else (t, c))
        (bands_loop bands a tbl)"
    by (rule Cons.IH)
  also have "\<dots> =
      map (\<lambda>(t, c). if t \<in> set (a # tss) then (t, cell_after bands (time_of t) c) else (t, c))
        tbl"
    unfolding bands_loop_cell_after map_map
    by (rule map_cong) (auto simp: cell_after_idem)
  finally show ?case .
qed

lemma profile_rows:
  "foldl (\<lambda>p ts. bands_loop bands ts p) (map (\<lambda>t. (t, NaN)) tss) tss =
     map (\<lambda>t. (t, cell_after bands (time_of t) NaN)) tss"
  by (simp add: foldl_bands_loop)

lemma time_of_step:
  "time_of \<lparr>of_year = y, seconds = k * 1800\<rparr> = ((k div 2) mod 24, 30 * (k mod 2), 0)"
proof -
  have "k * 1800 div 3600 = (1800 * k) div (1800 * 2)" by (simp add: mult.commute)
  then have a: "k * 1800 div 3600 = k div 2" by simp
  have e3: "30 * k mod (30 * 2) = 30 * (k mod 2)" by (rule mult_mod_right [symmetric])
  have e4: "(30::nat) * 2 = 60" by simp
  have e2: "30 * k mod 60 = 30 * (k mod 2)" using e3 unfolding e4 .
  have c: "k * 1800 mod 60 = 0" by simp
  show ?thesis by (simp add: time_of_def a e2 c)
qed

lemma steps_covered:
  "h < 24 \<Longrightarrow> m = 0 \<or> m = 30 \<Longrightarrow> \<exists>b \<in> set dummy_duos_values. in_band b (h, m, 0)"
  by (auto simp: dummy_duos_values_def dummy_duos_timetable_def in_band_def time_le_def)

lemma find_first:
  "find P xs = Some x \<Longrightarrow>
     \<exists>i < length xs. xs ! i = x \<and> P (xs ! i) \<and> (\<forall>j < i. \<not> P (xs ! j))"
  by (auto simp: find_Some_iff)

lemma find_exists: "\<exists>b \<in> set xs. P b \<Longrightarrow> \<exists>x. find P xs = Some x"
  by (cases "find P xs") (auto simp: find_None_iff)

lemma cell_after_first:
  assumes "\<exists>b \<in> set bands. in_band b tod"
  shows "\<exists>i < length bands. in_band (bands ! i) tod \<and>
           (\<forall>j < i. \<not> in_band (bands ! j) tod) \<and>
           cell_after bands tod c = Fin (band_rate (bands ! i))"
proof -
  from find_exists [OF assms] obtain b where b: "find (\<lambda>b. in_band b tod) bands = Some b"
    by blast
  from find_first [OF b] obtain i where "i < length bands" "bands ! i = b"
    "in_band (bands ! i) tod" "\<forall>j < i. \<not> in_band (bands ! j) tod"
    by blast
  moreover have "cell_after bands tod c = Fin (band_rate b)"
    by (simp add: cell_after_def b)
  ultimately show ?thesis by auto
qed

lemma cell_after_16:
  "cell_after dummy_duos_values (16, 0, 0) c = Fin (0.0518 + 0.1950)"
  by (simp add: dummy_duos_values_def dummy_duos_timetable_def cell_after_Cons in_band_def
      time_le_def band_rate_def)

lemma profile_of_year:
  assumes "generate_dummy_price_profile y = Inr prices"
  shows "\<exists>n. generate_annual_timesteps y
             = Inr (map (\<lambda>k. \<lparr>of_year = y, seconds = k * 1800\<rparr>) [0 ..< n]) \<and>
           prices = map (\<lambda>t. (t, cell_after dummy_duos_values (time_of t) NaN))
                      (map (\<lambda>k. \<lparr>of_year = y, seconds = k * 1800\<rparr>) [0 ..< n])"
proof -
  define n where "n = (days_in_year y * 86400 - 1) div 1800 + 1"
  from assms have range: "\<not> (y < 1 \<or> 9999 < y)"
    by (auto simp: generate_dummy_price_profile_def generate_annual_timesteps_def bind_res_def
        split: if_splits)
  have steps: "generate_annual_timesteps y
             = Inr (map (\<lambda>k. \<lparr>of_year = y, seconds = k * 1800\<rparr>) [0 ..< n])"
    using range by (simp add: generate_annual_timesteps_def n_def Let_def)
  from assms have "prices = map (\<lambda>t. (t, cell_after dummy_duos_values (time_of t) NaN))
                      (map (\<lambda>k. \<lparr>of_year = y, seconds = k * 1800\<rparr>) [0 ..< n])"
    unfolding generate_dummy_price_profile_def steps bind_res_def profile_rows by simp
  with steps show ?thesis by blast
qed

text \<open>
  C8. Every row of the price profile of a year holds the rate of the first declared band
  whose range, both ends included, holds the row's time of day; the rows are the annual
  timesteps; and a row at 16:00:00 holds the red rate, red + day, which is not the amber
  rate.
\<close>

theorem generate_dummy_price_profile_first_band:
  assumes "generate_dummy_price_profile y = Inr prices"
  shows "generate_annual_timesteps y = Inr (map fst prices) \<and>
    (\<forall>row \<in> set prices. \<exists>i < length dummy_duos_values.
        in_band (dummy_duos_values ! i) (time_of (fst row)) \<and>
        (\<forall>j < i. \<not> in_band (dummy_duos_values ! j) (time_of (fst row))) \<and>
        snd row = Fin (band_rate (dummy_duos_values ! i))) \<and>
    (\<forall>row \<in> set prices. time_of (fst row) = (16, 0, 0) \<longrightarrow>
        snd row = Fin (0.0518 + 0.1950) \<and> snd row \<noteq> Fin (0.00518 + 0.1950))"
proof -
  from profile_of_year [OF assms] obtain n where
    steps: "generate_annual_timesteps y
              = Inr (map (\<lambda>k. \<lparr>of_year = y, seconds = k * 1800\<rparr>) [0 ..< n])"
    and prices: "prices = map (\<lambda>t. (t, cell_after dummy_duos_values (time_of t) NaN))
                      (map (\<lambda>k. \<lparr>of_year = y, seconds = k * 1800\<rparr>) [0 ..< n])"
    by blast
  have idx: "generate_annual_timesteps y = Inr (map fst prices)"
    by (simp add: steps prices comp_def)
  have first: "\<exists>i < length dummy_duos_values.
        in_band (dummy_duos_values ! i) (time_of (fst row)) \<and>
        (\<forall>j < i. \<not> in_band (dummy_duos_values ! j) (time_of (fst row))) \<and>
        snd row = Fin (band_rate (dummy_duos_values ! i))" if "row \<in> set prices" for row
  proof -
    from that obtain k where
      row: "row = (\<lparr>of_year = y, seconds = k * 1800\<rparr>,
                   cell_after dummy_duos_values (time_of \<lparr>of_year = y, seconds = k * 1800\<rparr>) NaN)"
      by (auto simp: prices)
    have "k div 2 mod 24 < 24" by simp
    moreover have "30 * (k mod 2) = 0 \<or> 30 * (k mod 2) = 30" by auto
    ultimately have "\<exists>b \<in> set dummy_duos_values.
        in_band b (time_of \<lparr>of_year = y, seconds = k * 1800\<rparr>)"
      unfolding time_of_step by (rule steps_covered)
    from cell_after_first [OF this] show ?thesis by (simp add: row)
  qed
  have red: "snd row = Fin (0.0518 + 0.1950) \<and> snd row \<noteq> Fin (0.00518 + 0.1950)"
    if "row \<in> set prices" "time_of (fst row) = (16, 0, 0)" for row
  proof -
    from that(1) obtain t where "row = (t, cell_after dummy_duos_values (time_of t) NaN)"
      by (auto simp: prices)
    with that(2) have "snd row = Fin (0.0518 + 0.1950)"
      by (simp add: cell_after_16)
    then show ?thesis by simp
  qed
  from idx first red show ?thesis by blast
qed

theorem generate_dummy_price_profile_first_band_witness:
  "\<exists>prices. generate_dummy_price_profile 2024 = Inr prices \<and>
     length prices = 17568 \<and>
     prices ! 32 = (\<lparr>of_year = 2024, seconds = 57600\<rparr>, Fin 0.2468)"
proof -
  have n: "(days_in_year 2024 * 86400 - 1) div 1800 + 1 = 17568"
    by (simp add: days_in_year_def is_leap_def)
  have steps: "generate_annual_timesteps 2024
      = Inr (map (\<lambda>k. \<lparr>of_year = 2024, seconds = k * 1800\<rparr>) [0 ..< 17568])"
    unfolding generate_annual_timesteps_def Let_def n by simp
  then obtain prices where p: "generate_dummy_price_profile 2024 = Inr prices"
    by (simp add: generate_dummy_price_profile_def bind_res_def)
  note first = generate_dummy_price_profile_first_band [OF p]
  from first steps have idx:
    "map fst prices = map (\<lambda>k. \<lparr>of_year = 2024, seconds = k * 1800\<rparr>) [0 ..< 17568]"
    by simp
  then have "length (map fst prices) = 17568" by simp
  then have len: "length prices = 17568" by simp
  have "fst (prices ! 32) = map fst prices ! 32" using len by simp
  also have "\<dots> = \<lparr>of_year = 2024, seconds = 57600\<rparr>" unfolding idx by simp
  finally have f: "fst (prices ! 32) = \<lparr>of_year = 2024, seconds = 57600\<rparr>" .
  have "prices ! 32 \<in> set prices" using len by simp
  moreover have "time_of (fst (prices ! 32)) = (16, 0, 0)"
    by (simp add: f time_of_def)
  ultimately have "snd (prices ! 32) = Fin (0.0518 + 0.1950)"
    using first by blast
  then have "snd (prices ! 32) = Fin 0.2468" by simp
  with f have "prices ! 32 = (\<lparr>of_year = 2024, seconds = 57600\<rparr>, Fin 0.2468)"
    by (simp add: prod_eq_iff)
  with p len show ?thesis by blast
qed

section \<open>Site: import, export and avoided import\<close>

lemma import_export_cells:
  assumes "cols dataf = [(l, xs)]"
  shows "get_import_and_export_demand self dataf =
     Inr (dataf\<lparr>cols := [(SiteData IMPORT_ELECTRICITY_DEMAND,
                            map (\<lambda>x. if fl_less x (Fin 0) then Fin 0 else x) xs)]\<rparr>,
          dataf\<lparr>cols := [(SiteData EXPORT_ELECTRICITY_DEMAND,
                            map (\<lambda>x. fl_neg (if fl_less (Fin 0) x then Fin 0 else x)) xs)]\<rparr>)"
proof -
  have z: "\<And>P. map (\<lambda>(x, b). if b then Fin 0 else x) (zip xs (map P xs))
             = map (\<lambda>x. if P x then Fin 0 else x) xs"
    by (induction xs) auto
  show ?thesis
    by (simp add: get_import_and_export_demand_def loc_mask_set_scalar_def values_where_def
        assms bind_res_def set_columns_def get_multiindex_single_column_def
        get_multiindex_multiple_columns_def neg_frame_def z)
qed

lemma fl_less_0_cases:
  "fl_less (Fin 0) x \<Longrightarrow> \<not> fl_less x (Fin 0)"
  "fl_less x (Fin 0) \<Longrightarrow> fl_less (Fin 0) (fl_neg x)"
  by (cases x; simp)+

text \<open>
  C3. For a net-demand table of one column, \<open>get_import_and_export_demand\<close> returns the
  import and the export table, on the same index and under their labels, such that at
  every row: a positive net demand is the import, with export zero; a negative net demand
  gives import zero and its negation, a positive number, as export; a net demand of zero
  gives zero on both sides.
\<close>

theorem get_import_and_export_demand_rows:
  assumes "cols dataf = [(l, xs)]"
  shows "\<exists>import_dataf export_dataf ys zs.
           get_import_and_export_demand self dataf = Inr (import_dataf, export_dataf) \<and>
           index import_dataf = index dataf \<and> index export_dataf = index dataf \<and>
           cols import_dataf = [(SiteData IMPORT_ELECTRICITY_DEMAND, ys)] \<and>
           cols export_dataf = [(SiteData EXPORT_ELECTRICITY_DEMAND, zs)] \<and>
           length ys = length xs \<and> length zs = length xs \<and>
           (\<forall>i < length xs.
              (fl_less (Fin 0) (xs ! i) \<longrightarrow> ys ! i = xs ! i \<and> zs ! i = Fin 0) \<and>
              (fl_less (xs ! i) (Fin 0) \<longrightarrow>
                 ys ! i = Fin 0 \<and> zs ! i = fl_neg (xs ! i) \<and> fl_less (Fin 0) (zs ! i)) \<and>
              (xs ! i = Fin 0 \<longrightarrow> ys ! i = Fin 0 \<and> zs ! i = Fin 0))"
proof -
  let ?ys = "map (\<lambda>x. if fl_less x (Fin 0) then Fin 0 else x) xs"
  let ?zs = "map (\<lambda>x. fl_neg (if fl_less (Fin 0) x then Fin 0 else x)) xs"
  let ?imp = "dataf\<lparr>cols := [(SiteData IMPORT_ELECTRICITY_DEMAND, ?ys)]\<rparr>"
  let ?exp = "dataf\<lparr>cols := [(SiteData EXPORT_ELECTRICITY_DEMAND, ?zs)]\<rparr>"
  have r: "get_import_and_export_demand self dataf = Inr (?imp, ?exp)"
    by (rule import_export_cells [OF assms])
  have rows: "\<forall>i < length xs.
              (fl_less (Fin 0) (xs ! i) \<longrightarrow> ?ys ! i = xs ! i \<and> ?zs ! i = Fin 0) \<and>
              (fl_less (xs ! i) (Fin 0) \<longrightarrow>
                 ?ys ! i = Fin 0 \<and> ?zs ! i = fl_neg (xs ! i) \<and> fl_less (Fin 0) (?zs ! i)) \<and>
              (xs ! i = Fin 0 \<longrightarrow> ?ys ! i = Fin 0 \<and> ?zs ! i = Fin 0)"
    by (auto simp: fl_less_0_cases)
  have "index ?imp = index dataf \<and> index ?exp = index dataf \<and>
        cols ?imp = [(SiteData IMPORT_ELECTRICITY_DEMAND, ?ys)] \<and>
        cols ?exp = [(SiteData EXPORT_ELECTRICITY_DEMAND, ?zs)] \<and>
        length ?ys = length xs \<and> length ?zs = length xs"
    by simp
  with r rows show ?thesis by blast
qed

lemma list3_by_nth:
  "length xs = 3 \<Longrightarrow> xs ! 0 = a \<Longrightarrow> xs ! 1 = b \<Longrightarrow> xs ! 2 = c \<Longrightarrow> xs = [a, b, c]"
  by (auto simp: length_Suc_conv numeral_eq_Suc)

theorem get_import_and_export_demand_rows_witness:
  "\<exists>import_dataf export_dataf.
     get_import_and_export_demand site_sample net_demand_sample
       = Inr (import_dataf, export_dataf) \<and>
     cols import_dataf = [(SiteData IMPORT_ELECTRICITY_DEMAND, [Fin 0, Fin 0, Fin 5])] \<and>
     cols export_dataf = [(SiteData EXPORT_ELECTRICITY_DEMAND, [Fin 5, Fin 0, Fin 0])]"
proof -
  let ?xs = "[Fin (- 5), Fin 0, Fin 5]"
  have c: "cols net_demand_sample = [(Other ''net'', ?xs)]"
    by (simp add: net_demand_sample_def)
  from get_import_and_export_demand_rows [OF c, of site_sample] obtain import_dataf export_dataf ys zs
    where r: "get_import_and_export_demand site_sample net_demand_sample
                = Inr (import_dataf, export_dataf)"
    and ci: "cols import_dataf = [(SiteData IMPORT_ELECTRICITY_DEMAND, ys)]"
    and ce: "cols export_dataf = [(SiteData EXPORT_ELECTRICITY_DEMAND, zs)]"
    and ly: "length ys = length ?xs" and lz: "length zs = length ?xs"
    and rows: "\<forall>i < length ?xs.
              (fl_less (Fin 0) (?xs ! i) \<longrightarrow> ys ! i = ?xs ! i \<and> zs ! i = Fin 0) \<and>
              (fl_less (?xs ! i) (Fin 0) \<longrightarrow>
                 ys ! i = Fin 0 \<and> zs ! i = fl_neg (?xs ! i) \<and> fl_less (Fin 0) (zs ! i)) \<and>
              (?xs ! i = Fin 0 \<longrightarrow> ys ! i = Fin 0 \<and> zs ! i = Fin 0)"
    by blast
  have "(0::nat) < length ?xs" "(1::nat) < length ?xs" "(2::nat) < length ?xs" by simp_all
  with rows have "ys ! 0 = Fin 0" "zs ! 0 = Fin 5" "ys ! 1 = Fin 0" "zs ! 1 = Fin 0"
    "ys ! 2 = Fin 5" "zs ! 2 = Fin 0"
    by fastforce+
  with ly lz have "ys = [Fin 0, Fin 0, Fin 5]" "zs = [Fin 5, Fin 0, Fin 0]"
    by (simp_all add: list3_by_nth)
  with r ci ce show ?thesis by blast
qed

lemma scatter_flagged:
  "length m = length xs \<Longrightarrow> length xs = length ys \<Longrightarrow>
     scatter m xs (flagged m ys) = map (\<lambda>(b, x, y). if b then y else x) (zip m (zip xs ys))"
proof (induction m xs ys rule: list_induct3)
  case Nil
  show ?case by (simp add: flagged_def)
next
  case (Cons b m x xs y ys)
  then show ?case by (cases b) (simp_all add: flagged_def)
qed

lemma avoided_cells:
  assumes "cols onsite_gen = [(lg, gs)]"
    and "cols exported = [(le, es)]"
    and "cols (site_electricity_demand self) = [(ld, ds)]"
    and "index exported = index onsite_gen"
    and "index (site_electricity_demand self) = index onsite_gen"
    and "length gs = length (index onsite_gen)"
    and "length es = length (index onsite_gen)"
    and "length ds = length (index onsite_gen)"
  shows "get_avoided_electricity_import self onsite_gen exported =
     Inr (onsite_gen\<lparr>cols := [(SiteData SELF_CONSUMED_ELECTRICITY,
            map (\<lambda>(b, x, y). if b then y else x)
              (zip (map (\<lambda>x. fl_less (Fin 0) x) es) (zip gs ds)))]\<rparr>)"
  using assms
  by (simp add: get_avoided_electricity_import_def Let_def values_where_def loc_mask_get_def
      row_flags_def bind_res_def loc_mask_set_frame_def set_columns_def
      get_multiindex_single_column_def get_multiindex_multiple_columns_def scatter_flagged)

text \<open>
  The sample site has a demand of 4 of its own and an aggregator that adds a demand of 3
  and generates 9, over one half hour.
\<close>

lemma sample_additional:
  "total_additional_demand site_aggregator_sample
     = Inr \<lparr>index = [0], cols = [(SiteData ADDITIONAL_ELECTRICITY_DEMAND, [Fin 3])]\<rparr>"
  by (simp add: total_additional_demand_def aggregators_additional_demand_def
      site_aggregator_sample_def aggregator_sample_def keyed_def concat_axis1_def bind_res_def
      len_def Let_def set_columns_def to_frame_def sum_axis1_def fl_sum_def
      get_multiindex_single_column_def get_multiindex_multiple_columns_def empty_table_def)

lemma sample_generation:
  "total_onsite_generation site_aggregator_sample
     = Inr \<lparr>index = [0], cols = [(SiteData ELECTRICITY_GENERATION, [Fin 9])]\<rparr>"
  by (simp add: total_onsite_generation_def aggregators_onsite_generation_def
      site_aggregator_sample_def aggregator_sample_def keyed_def concat_axis1_def bind_res_def
      len_def Let_def set_columns_def to_frame_def sum_axis1_def fl_sum_def
      get_multiindex_single_column_def get_multiindex_multiple_columns_def empty_table_def)

lemma sample_avoided:
  "get_avoided_electricity_import site_aggregator_sample
       \<lparr>index = [0], cols = [(SiteData ELECTRICITY_GENERATION, [Fin 9])]\<rparr>
       \<lparr>index = [0], cols = [(SiteData EXPORT_ELECTRICITY_DEMAND, [Fin 2])]\<rparr>
     = Inr \<lparr>index = [0], cols = [(SiteData SELF_CONSUMED_ELECTRICITY, [Fin 4])]\<rparr>"
  by (simp add: get_avoided_electricity_import_def Let_def values_where_def loc_mask_get_def
      row_flags_def bind_res_def loc_mask_set_frame_def set_columns_def flagged_def
      get_multiindex_single_column_def get_multiindex_multiple_columns_def
      site_aggregator_sample_def)

text \<open>
  Counterexample to C1 as the specification states it. The total demand of the sample
  site, as \<open>export_results\<close> forms it, is 4 + 3 = 7; the generation of 9 leaves an export
  of 2. At that row \<open>get_avoided_electricity_import\<close> returns 4, the site's own demand,
  not the total demand of 7; the results table of the site has the same 4 in its
  self-consumption column.
\<close>

theorem get_avoided_electricity_import_not_total_demand:
  "total_additional_demand site_aggregator_sample
     = Inr \<lparr>index = [0], cols = [(SiteData ADDITIONAL_ELECTRICITY_DEMAND, [Fin 3])]\<rparr> \<and>
   arith_values fl_add (site_electricity_demand site_aggregator_sample)
       (values_of \<lparr>index = [0::nat],
                    cols = [(SiteData ADDITIONAL_ELECTRICITY_DEMAND, [Fin 3])]\<rparr>)
     = Inr \<lparr>index = [0], cols = [(SiteData INIT_SITE_ELECTRICITY_DEMAND, [Fin 7])]\<rparr> \<and>
   get_avoided_electricity_import site_aggregator_sample
       \<lparr>index = [0], cols = [(SiteData ELECTRICITY_GENERATION, [Fin 9])]\<rparr>
       \<lparr>index = [0], cols = [(SiteData EXPORT_ELECTRICITY_DEMAND, [Fin 2])]\<rparr>
     = Inr \<lparr>index = [0], cols = [(SiteData SELF_CONSUMED_ELECTRICITY, [Fin 4])]\<rparr> \<and>
   site_export_results site_aggregator_sample
     = Inr \<lparr>index = [0],
            cols = [(SiteData IMPORT_ELECTRICITY_DEMAND, [Fin 0]),
                    (SiteData EXPORT_ELECTRICITY_DEMAND, [Fin 2]),
                    (SiteData ELECTRICITY_GENERATION, [Fin 9]),
                    (SiteData ADDITIONAL_ELECTRICITY_DEMAND, [Fin 3]),
                    (SiteData INIT_SITE_ELECTRICITY_DEMAND, [Fin 4]),
                    (SiteData SELF_CONSUMED_ELECTRICITY, [Fin 4])]\<rparr>"
proof -
  have t: "arith_values fl_add (site_electricity_demand site_aggregator_sample)
       (values_of \<lparr>index = [0::nat],
                    cols = [(SiteData ADDITIONAL_ELECTRICITY_DEMAND, [Fin 3])]\<rparr>)
     = Inr \<lparr>index = [0], cols = [(SiteData INIT_SITE_ELECTRICITY_DEMAND, [Fin 7])]\<rparr>"
    by (simp add: arith_values_def values_of_def site_aggregator_sample_def)
  have n: "arith_values fl_sub
       \<lparr>index = [0::nat], cols = [(SiteData INIT_SITE_ELECTRICITY_DEMAND, [Fin 7])]\<rparr>
       (values_of \<lparr>index = [0::nat], cols = [(SiteData ELECTRICITY_GENERATION, [Fin 9])]\<rparr>)
     = Inr \<lparr>index = [0], cols = [(SiteData INIT_SITE_ELECTRICITY_DEMAND, [Fin (- 2)])]\<rparr>"
    by (simp add: arith_values_def values_of_def fl_sub_def)
  have s: "get_import_and_export_demand site_aggregator_sample
       \<lparr>index = [0::nat], cols = [(SiteData INIT_SITE_ELECTRICITY_DEMAND, [Fin (- 2)])]\<rparr>
     = Inr (\<lparr>index = [0], cols = [(SiteData IMPORT_ELECTRICITY_DEMAND, [Fin 0])]\<rparr>,
            \<lparr>index = [0], cols = [(SiteData EXPORT_ELECTRICITY_DEMAND, [Fin 2])]\<rparr>)"
    by (simp add: get_import_and_export_demand_def loc_mask_set_scalar_def values_where_def
        bind_res_def set_columns_def neg_frame_def
        get_multiindex_single_column_def get_multiindex_multiple_columns_def)
  have e: "site_export_results site_aggregator_sample
     = Inr \<lparr>index = [0],
            cols = [(SiteData IMPORT_ELECTRICITY_DEMAND, [Fin 0]),
                    (SiteData EXPORT_ELECTRICITY_DEMAND, [Fin 2]),
                    (SiteData ELECTRICITY_GENERATION, [Fin 9]),
                    (SiteData ADDITIONAL_ELECTRICITY_DEMAND, [Fin 3]),
                    (SiteData INIT_SITE_ELECTRICITY_DEMAND, [Fin 4]),
                    (SiteData SELF_CONSUMED_ELECTRICITY, [Fin 4])]\<rparr>"
    unfolding site_export_results_def sample_additional sample_generation
    by (simp add: bind_res_def t n s sample_avoided concat_axis1_def)
      (simp add: site_aggregator_sample_def)
  from sample_additional t sample_avoided e show ?thesis by simp
qed

text \<open>
  The site's own table is read with the mask of the export demand: a site whose demand
  table is the default empty one has no row for the mask, and the call raises.
\<close>

lemma get_avoided_electricity_import_empty_demand:
  "get_avoided_electricity_import (site_sample\<lparr>site_electricity_demand := empty_table\<rparr>)
     onsite_gen_sample export_demand_sample = Inl IndexError"
  by (simp add: get_avoided_electricity_import_def Let_def values_where_def loc_mask_get_def
      row_flags_def bind_res_def export_demand_sample_def empty_table_def)

text \<open>
  C1, amended. For one-column tables of onsite generation and export demand that share
  their row index with the site's own one-column demand table
  (\<open>site_electricity_demand\<close>, the demand without what the aggregators add),
  \<open>get_avoided_electricity_import\<close> returns a table on that index, under the
  self-consumption label, that holds the site's own demand at every row where the export
  demand is strictly positive, and the onsite generation, unchanged, at every other row.
\<close>

theorem get_avoided_electricity_import_rows:
  assumes "cols onsite_gen = [(lg, gs)]"
    and "cols exported = [(le, es)]"
    and "cols (site_electricity_demand self) = [(ld, ds)]"
    and "index exported = index onsite_gen"
    and "index (site_electricity_demand self) = index onsite_gen"
    and "length gs = length (index onsite_gen)"
    and "length es = length (index onsite_gen)"
    and "length ds = length (index onsite_gen)"
  shows "\<exists>avoided rs. get_avoided_electricity_import self onsite_gen exported = Inr avoided \<and>
           index avoided = index onsite_gen \<and>
           cols avoided = [(SiteData SELF_CONSUMED_ELECTRICITY, rs)] \<and>
           length rs = length gs \<and>
           (\<forall>i < length gs.
              (fl_less (Fin 0) (es ! i) \<longrightarrow> rs ! i = ds ! i) \<and>
              (\<not> fl_less (Fin 0) (es ! i) \<longrightarrow> rs ! i = gs ! i))"
proof -
  let ?rs = "map (\<lambda>(b, x, y). if b then y else x)
               (zip (map (\<lambda>x. fl_less (Fin 0) x) es) (zip gs ds))"
  let ?avoided = "onsite_gen\<lparr>cols := [(SiteData SELF_CONSUMED_ELECTRICITY, ?rs)]\<rparr>"
  have r: "get_avoided_electricity_import self onsite_gen exported = Inr ?avoided"
    by (rule avoided_cells [OF assms])
  from assms(6-8) have len: "length ?rs = length gs" by simp
  from assms(6-8) have rows: "\<forall>i < length gs.
              (fl_less (Fin 0) (es ! i) \<longrightarrow> ?rs ! i = ds ! i) \<and>
              (\<not> fl_less (Fin 0) (es ! i) \<longrightarrow> ?rs ! i = gs ! i)"
    by simp
  have "index ?avoided = index onsite_gen \<and>
        cols ?avoided = [(SiteData SELF_CONSUMED_ELECTRICITY, ?rs)]"
    by simp
  with r len rows show ?thesis by blast
qed

theorem get_avoided_electricity_import_rows_witness:
  "\<exists>avoided. get_avoided_electricity_import site_sample onsite_gen_sample export_demand_sample
       = Inr avoided \<and>
     index avoided = [0, 1, 2] \<and>
     cols avoided = [(SiteData SELF_CONSUMED_ELECTRICITY, [Fin 4, Fin 2, Fin 3])]"
proof -
  let ?gs = "[Fin 9, Fin 2, Fin 3]"
  let ?es = "[Fin 5, Fin 0, Fin 0]"
  let ?ds = "[Fin 4, Fin 6, Fin 3]"
  have h: "cols onsite_gen_sample = [(SiteData ELECTRICITY_GENERATION, ?gs)]"
    "cols export_demand_sample = [(SiteData EXPORT_ELECTRICITY_DEMAND, ?es)]"
    "cols (site_electricity_demand site_sample) = [(SiteData INIT_SITE_ELECTRICITY_DEMAND, ?ds)]"
    "index export_demand_sample = index onsite_gen_sample"
    "index (site_electricity_demand site_sample) = index onsite_gen_sample"
    "length ?gs = length (index onsite_gen_sample)"
    "length ?es = length (index onsite_gen_sample)"
    "length ?ds = length (index onsite_gen_sample)"
    by (simp_all add: onsite_gen_sample_def export_demand_sample_def site_sample_def)
  from get_avoided_electricity_import_rows [OF h] obtain avoided rs where
    r: "get_avoided_electricity_import site_sample onsite_gen_sample export_demand_sample
          = Inr avoided"
    and i: "index avoided = index onsite_gen_sample"
    and c: "cols avoided = [(SiteData SELF_CONSUMED_ELECTRICITY, rs)]"
    and l: "length rs = length ?gs"
    and rows: "\<forall>i < length ?gs.
        (fl_less (Fin 0) (?es ! i) \<longrightarrow> rs ! i = ?ds ! i) \<and>
        (\<not> fl_less (Fin 0) (?es ! i) \<longrightarrow> rs ! i = ?gs ! i)"
    by blast
  have "(0::nat) < length ?gs" "(1::nat) < length ?gs" "(2::nat) < length ?gs" by simp_all
  with rows have "rs ! 0 = Fin 4" "rs ! 1 = Fin 2" "rs ! 2 = Fin 3"
    by fastforce+
  with l have "rs = [Fin 4, Fin 2, Fin 3]" by (simp add: list3_by_nth)
  with r i c show ?thesis by (simp add: onsite_gen_sample_def)
qed

section \<open>Scenario: construction\<close>

lemma update_results_fields:
  "update_results s = Inr s' \<Longrightarrow>
     import_electricity_emission_factor s' = import_electricity_emission_factor s \<and>
     import_electricity_prices s' = import_electricity_prices s \<and>
     export_electricity_prices s' = export_electricity_prices s"
  by (auto simp: update_results_def bind_res_def split: sum.splits)

lemma set_default_export_fields:
  "set_default_export_electricity_prices v s = Inr s' \<Longrightarrow>
     import_electricity_emission_factor s' = import_electricity_emission_factor s \<and>
     import_electricity_prices s' = import_electricity_prices s"
  by (auto simp: set_default_export_electricity_prices_def bind_res_def split: sum.splits if_splits)

lemma format_prices_cases:
  assumes "format_site_import_electricity_prices tz s = Inr s'"
  shows "import_electricity_emission_factor s' = import_electricity_emission_factor s \<and>
    ((length (cols (import_electricity_prices s)) \<noteq> 1 \<and> s' = s) \<or>
     (\<exists>idx l xs. cols (import_electricity_prices s) = [(l, xs)] \<and>
        tz (timezone (site_model s)) (index (import_electricity_prices s)) = Inr idx \<and>
        length idx = length (index (import_electricity_prices s)) \<and>
        index (import_electricity_prices s') = idx \<and>
        cols (import_electricity_prices s') = [(Results IMPORT_ELECTRICITY_PRICES, xs)]))"
proof (cases "length (cols (import_electricity_prices s)) = 1")
  case False
  with assms show ?thesis by (simp add: format_site_import_electricity_prices_def)
next
  case True
  then obtain l xs where c: "cols (import_electricity_prices s) = [(l, xs)]"
    by (cases "cols (import_electricity_prices s)") auto
  from assms True c show ?thesis
    by (auto simp: format_site_import_electricity_prices_def bind_res_def set_index_def
        set_columns_def get_multiindex_single_column_def get_multiindex_multiple_columns_def
        split: sum.splits if_splits)
qed

lemma set_default_factor_empty:
  assumes "import_electricity_emission_factor s = empty_table"
    and "set_default_import_electricity_emission_factor v s = Inr s'"
  shows "import_electricity_prices s' = import_electricity_prices s \<and>
    (\<exists>l xs. cols (import_electricity_prices s) = [(l, xs)] \<and>
       index (import_electricity_emission_factor s') = index (import_electricity_prices s) \<and>
       cols (import_electricity_emission_factor s') =
         [(Results GHG_INTENSITY_IMPORT_ELECTRICITY,
           replicate (length (index (import_electricity_prices s))) v)])"
  using assms
  by (cases "cols (import_electricity_prices s)")
    (auto simp: set_default_import_electricity_emission_factor_def len_def empty_table_def
      bind_res_def set_columns_def iloc_set_column0_def get_multiindex_single_column_def
      get_multiindex_multiple_columns_def split: sum.splits if_splits list.splits)


text \<open>
  C5. When a scenario is constructed without an emission factor, and the construction
  goes through, the import prices were a table of one column, now on the index the
  timezone step gave and under the import-price label; the emission factor is a table on
  that same index, of one column under the emission-intensity label, and each of its
  cells is 0.150, whatever the prices are.
\<close>

theorem default_emission_factor:
  assumes "import_electricity_emission_factor self = empty_table"
    and "post_init tz self = Inr s"
  shows "\<exists>idx l xs.
     cols (import_electricity_prices self) = [(l, xs)] \<and>
     tz (timezone (site_model self)) (index (import_electricity_prices self)) = Inr idx \<and>
     index (import_electricity_prices s) = idx \<and>
     cols (import_electricity_prices s) = [(Results IMPORT_ELECTRICITY_PRICES, xs)] \<and>
     index (import_electricity_emission_factor s) = idx \<and>
     cols (import_electricity_emission_factor s) =
       [(Results GHG_INTENSITY_IMPORT_ELECTRICITY, replicate (length idx) (Fin 0.150))]"
proof -
  from assms(2) obtain s1 s2 s3 where
    f: "format_site_import_electricity_prices tz self = Inr s1"
    and e: "set_default_import_electricity_emission_factor (Fin 0.150) s1 = Inr s2"
    and x: "set_default_export_electricity_prices (Fin 0) s2 = Inr s3"
    and u: "update_results s3 = Inr s"
    by (auto simp: post_init_def bind_res_def split: sum.splits)
  note f' = format_prices_cases [OF f]
  from f' assms(1) have e1: "import_electricity_emission_factor s1 = empty_table" by simp
  note e' = set_default_factor_empty [OF e1 e]
  from e' obtain l1 xs1 where c1: "cols (import_electricity_prices s1) = [(l1, xs1)]"
    by blast
  have "length (cols (import_electricity_prices self)) = 1"
  proof (rule ccontr)
    assume "length (cols (import_electricity_prices self)) \<noteq> 1"
    with f' have "s1 = self" by auto
    with c1 \<open>length (cols (import_electricity_prices self)) \<noteq> 1\<close> show False by simp
  qed
  with f' obtain idx l xs where
    p: "cols (import_electricity_prices self) = [(l, xs)]"
      "tz (timezone (site_model self)) (index (import_electricity_prices self)) = Inr idx"
      "index (import_electricity_prices s1) = idx"
      "cols (import_electricity_prices s1) = [(Results IMPORT_ELECTRICITY_PRICES, xs)]"
    by auto
  from set_default_export_fields [OF x] update_results_fields [OF u] e'
  have k: "import_electricity_prices s = import_electricity_prices s1"
    "import_electricity_emission_factor s = import_electricity_emission_factor s2"
    by simp_all
  from e' p k show ?thesis by auto
qed

lemma post_init_sample:
  "post_init tz_sample scenario_args_sample = Inr scenario_sample"
  by (simp add: post_init_def scenario_args_sample_def site_model_sample_def tz_sample_def
      scenario_sample_def
      format_site_import_electricity_prices_def set_default_import_electricity_emission_factor_def
      set_default_export_electricity_prices_def update_results_def export_results_def
      bind_res_def set_index_def set_columns_def get_multiindex_single_column_def
      get_multiindex_multiple_columns_def iloc_set_column0_def len_def empty_table_def
      calculate_electricity_operation_cost_def calculate_electricity_import_operation_cost_def
      calculate_electricity_export_operation_cost_def calculate_electricity_associated_emissions_def
      calculate_site_electricity_avoided_emissions_def
      calculate_total_electricity_avoided_emissions_def calculate_electricity_import_savings_def
      metric_def import_demand_def export_demand_def avoided_import_def onsite_generation_of_def
      getitem_column_def arith_values_def values_of_def concat_axis1_def)

theorem default_emission_factor_witness:
  "import_electricity_emission_factor scenario_args_sample = empty_table \<and>
   post_init tz_sample scenario_args_sample = Inr scenario_sample \<and>
   cols (import_electricity_prices scenario_args_sample) = [(Other ''price'', [Fin 2, Fin 4])] \<and>
   cols (import_electricity_emission_factor scenario_sample) =
     [(Results GHG_INTENSITY_IMPORT_ELECTRICITY, [Fin 0.150, Fin 0.150])] \<and>
   index (import_electricity_emission_factor scenario_sample) = [0, 1] \<and>
   index (import_electricity_prices scenario_sample) = [0, 1]"
proof -
  have e: "import_electricity_emission_factor scenario_args_sample = empty_table"
    by (simp add: scenario_args_sample_def)
  from default_emission_factor [OF e post_init_sample] obtain idx l xs where
    "cols (import_electricity_prices scenario_args_sample) = [(l, xs)]"
    "tz_sample (timezone (site_model scenario_args_sample))
       (index (import_electricity_prices scenario_args_sample)) = Inr idx"
    "index (import_electricity_prices scenario_sample) = idx"
    "index (import_electricity_emission_factor scenario_sample) = idx"
    "cols (import_electricity_emission_factor scenario_sample) =
       [(Results GHG_INTENSITY_IMPORT_ELECTRICITY, replicate (length idx) (Fin 0.150))]"
    by blast
  moreover have "cols (import_electricity_prices scenario_args_sample)
      = [(Other ''price'', [Fin 2, Fin 4])]"
    "index (import_electricity_prices scenario_args_sample) = [0, 1]"
    by (simp_all add: scenario_args_sample_def)
  ultimately show ?thesis
    using e post_init_sample by (auto simp: tz_sample_def numeral_2_eq_2)
qed

section \<open>Scenario: the annual summary\<close>











lemma get_col_name_eq: "get_col_name self l = l"
  by (simp add: get_col_name_def get_multiindex_single_column_def
      get_multiindex_multiple_columns_def)



lemma foldl_fl_add_Fin: "foldl fl_add (Fin a) (map Fin rs) = Fin (a + sum_list rs)"
  by (induction rs arbitrary: a) (simp_all add: add.assoc)

lemma fl_sum_Fin: "fl_sum (map Fin rs) = Fin (sum_list rs)"
  by (simp add: fl_sum_def foldl_fl_add_Fin filter_map comp_def)

lemma foldl_fl_max2_Fin: "foldl fl_max2 (Fin a) (map Fin rs) = Fin (Max (set (a # rs)))"
proof (induction rs arbitrary: a)
  case Nil
  show ?case by simp
next
  case (Cons r rs)
  have "fl_max2 (Fin a) (Fin r) = Fin (max a r)" by (simp add: fl_max2_def max_def)
  moreover have "Max (set (max a r # rs)) = Max (set (a # r # rs))"
    by (cases "rs = []") (simp_all add: max.assoc)
  ultimately show ?case using Cons [of "max a r"] by simp
qed

lemma fl_max_Fin: "rs \<noteq> [] \<Longrightarrow> fl_max (map Fin rs) = Fin (Max (set rs))"
  by (cases rs) (simp_all add: fl_max_def filter_map comp_def foldl_fl_max2_Fin)




section \<open>Scenario comparison\<close>

lemma one_col_loc_set:
  assumes "cols t = [(n, vs)]" and "length vs = length (index t)"
  shows "\<exists>ws. cols (loc_set row n v t) = [(n, ws)] \<and>
              length ws = length (index (loc_set row n v t))"
  using assms by (cases "row \<in> set (index t)") (simp_all add: loc_set_def Let_def)

lemma one_col_foldl_loc_set:
  "\<exists>vs. cols t = [(n, vs)] \<and> length vs = length (index t) \<Longrightarrow>
     \<exists>ws. cols (foldl (\<lambda>s (a, v). loc_set (f a) n v s) t xs) = [(n, ws)] \<and>
          length ws = length (index (foldl (\<lambda>s (a, v). loc_set (f a) n v s) t xs))"
proof (induction xs arbitrary: t)
  case Nil
  then show ?case by simp
next
  case (Cons x xs)
  obtain a v where x: "x = (a, v)" by (cases x)
  from Cons.prems obtain vs where "cols t = [(n, vs)]" "length vs = length (index t)" by blast
  then have "\<exists>ws. cols (loc_set (f a) n v t) = [(n, ws)] \<and>
              length ws = length (index (loc_set (f a) n v t))"
    by (rule one_col_loc_set)
  from Cons.IH [OF this] show ?case by (simp add: x)
qed

lemma one_col_calculate_total_opex:
  assumes "calculate_total_opex self t = Inr t'"
    and "\<exists>vs. cols t = [(name self, vs)] \<and> length vs = length (index t)"
  shows "\<exists>ws. cols t' = [(name self, ws)] \<and> length ws = length (index t')"
proof -
  define t1 where "t1 = loc_set (Results OPEX) (name self)
      (foldl fl_add (Fin 0) (map snd (annual_maintenance_cost (site_model self)))) t"
  from assms(2) have o1: "\<exists>ws. cols t1 = [(name self, ws)] \<and> length ws = length (index t1)"
    unfolding t1_def by (auto intro: one_col_loc_set)
  from assms(1) obtain v where "t' = loc_set (Results OPEX) (name self) v t1"
    by (auto simp: calculate_total_opex_def Let_def get_col_name_eq bind_res_def
        t1_def [symmetric] split: sum.splits)
  with o1 show ?thesis by (auto intro: one_col_loc_set)
qed

lemma one_col_get_summary_results:
  assumes "get_summary_results self = Inr t"
  shows "\<exists>vs. cols t = [(name self, vs)] \<and> length vs = length (index t)"
proof -
  define n where "n = name self"
  have o0: "\<exists>vs. cols (sum_to_frame n (summary_results self)) = [(n, vs)] \<and>
                 length vs = length (index (sum_to_frame n (summary_results self)))"
    by (simp add: sum_to_frame_def)
  from assms obtain v1 v2 t4 where
    c4: "calculate_total_opex self
           (get_capex_by_technology self
              (loc_set (Results PEAK_ELECTRICITY_EXPORT) n v2
                 (loc_set (Results PEAK_ELECTRICITY_IMPORT) n v1
                    (sum_to_frame n (summary_results self))))) = Inr t4"
    and t: "t = get_capacity_by_technology self t4"
    by (auto simp: get_summary_results_def Let_def get_col_name_eq bind_res_def
        n_def [symmetric] split: sum.splits)
  from o0 have "\<exists>vs. cols (loc_set (Results PEAK_ELECTRICITY_IMPORT) n v1
                    (sum_to_frame n (summary_results self))) = [(n, vs)] \<and>
       length vs = length (index (loc_set (Results PEAK_ELECTRICITY_IMPORT) n v1
                    (sum_to_frame n (summary_results self))))"
    by (auto intro: one_col_loc_set)
  then have "\<exists>vs. cols (loc_set (Results PEAK_ELECTRICITY_EXPORT) n v2
                 (loc_set (Results PEAK_ELECTRICITY_IMPORT) n v1
                    (sum_to_frame n (summary_results self)))) = [(n, vs)] \<and>
       length vs = length (index (loc_set (Results PEAK_ELECTRICITY_EXPORT) n v2
                 (loc_set (Results PEAK_ELECTRICITY_IMPORT) n v1
                    (sum_to_frame n (summary_results self)))))"
    by (auto intro: one_col_loc_set)
  then have "\<exists>vs. cols (get_capex_by_technology self
              (loc_set (Results PEAK_ELECTRICITY_EXPORT) n v2
                 (loc_set (Results PEAK_ELECTRICITY_IMPORT) n v1
                    (sum_to_frame n (summary_results self))))) = [(n, vs)] \<and>
       length vs = length (index (get_capex_by_technology self
              (loc_set (Results PEAK_ELECTRICITY_EXPORT) n v2
                 (loc_set (Results PEAK_ELECTRICITY_IMPORT) n v1
                    (sum_to_frame n (summary_results self))))))"
    unfolding get_capex_by_technology_def n_def [symmetric]
    by (rule one_col_foldl_loc_set [where f = "\<lambda>a. ByTechnology a CAPEX"])
  with c4 have "\<exists>ws. cols t4 = [(n, ws)] \<and> length ws = length (index t4)"
    unfolding n_def by (rule one_col_calculate_total_opex)
  then show ?thesis
    unfolding t get_capacity_by_technology_def n_def [symmetric]
    by (rule one_col_foldl_loc_set [where f = "\<lambda>a. ByTechnology a CAPACITY_INSTALLED"])
qed

lemma map_res_all2:
  "map_res f xs = Inr ys \<Longrightarrow> list_all2 (\<lambda>x y. f x = Inr y) xs ys"
  by (induction xs arbitrary: ys) (auto simp: bind_res_def split: sum.splits)

lemma concat_axis1_same_index:
  assumes "frames \<noteq> []" and "\<forall>f \<in> set frames. index f = ix"
  shows "concat_axis1 frames = Inr \<lparr>index = ix, cols = concat (map cols frames)\<rparr>"
  using assms by (cases frames) (auto simp: concat_axis1_def list_all_iff)

lemma select_columns_filter:
  "distinct ls \<Longrightarrow> set ls \<subseteq> fst ` set (cols df) \<Longrightarrow>
     \<exists>res. select_columns ls df = Inr res \<and>
       (\<forall>n. filter (\<lambda>c. fst c = n) res
              = (if n \<in> set ls then filter (\<lambda>c. fst c = n) (cols df) else []))"
proof (induction ls)
  case Nil
  show ?case by simp
next
  case (Cons l ls)
  then obtain res where r: "select_columns ls df = Inr res"
    and f: "\<forall>n. filter (\<lambda>c. fst c = n) res
              = (if n \<in> set ls then filter (\<lambda>c. fst c = n) (cols df) else [])"
    by auto
  from Cons.prems obtain c cs where fl: "filter (\<lambda>c. fst c = l) (cols df) = c # cs"
    by (cases "filter (\<lambda>c. fst c = l) (cols df)") (auto simp: filter_empty_conv)
  have s: "select_columns (l # ls) df = Inr ((c # cs) @ res)"
    by (simp add: fl r bind_res_def)
  have "filter (\<lambda>c. fst c = n) ((c # cs) @ res)
          = (if n \<in> set (l # ls) then filter (\<lambda>c. fst c = n) (cols df) else [])" for n
  proof (cases "n = l")
    case True
    from Cons.prems have "l \<notin> set ls" by simp
    with f have e: "filter (\<lambda>c. fst c = l) res = []" by simp
    have "filter (\<lambda>c. fst c = l) (c # cs)
            = filter (\<lambda>c. fst c = l) (filter (\<lambda>c. fst c = l) (cols df))"
      by (simp only: fl)
    also have "\<dots> = filter (\<lambda>c. fst c = l) (cols df)" by simp
    finally have k: "filter (\<lambda>c. fst c = l) (c # cs) = filter (\<lambda>c. fst c = l) (cols df)" .
    have "filter (\<lambda>c. fst c = l) ((c # cs) @ res) = filter (\<lambda>c. fst c = l) (cols df)"
      by (simp only: filter_append k e append_Nil2)
    with True show ?thesis by (simp del: filter.simps filter_append)
  next
    case False
    have "filter (\<lambda>c. fst c = n) (filter (\<lambda>c. fst c = l) (cols df)) = []"
      using False by (auto simp: filter_empty_conv)
    then have "filter (\<lambda>c. fst c = n) (c # cs) = []" unfolding fl .
    then have "filter (\<lambda>c. fst c = n) ((c # cs) @ res) = filter (\<lambda>c. fst c = n) res"
      by (simp only: filter_append append_Nil)
    with f False show ?thesis by (simp del: filter.simps filter_append)
  qed
  with s show ?case by blast
qed

lemma arith_values_column:
  "arith_values f df (length (index df), [a])
     = Inr (df\<lparr>cols := map (\<lambda>c. (fst c, map2 f (snd c) a)) (cols df)\<rparr>)"
proof (cases "length (cols df) = 1")
  case True
  then obtain c where "cols df = [c]" by (cases "cols df") auto
  then show ?thesis by (simp add: arith_values_def)
next
  case False
  then show ?thesis by (auto simp: arith_values_def)
qed

lemma filter_fst_map:
  "filter (\<lambda>c. fst c = n) (map (\<lambda>c. (fst c, g (snd c))) cs)
     = map (\<lambda>c. (fst c, g (snd c))) (filter (\<lambda>c. fst c = n) cs)"
  by (induction cs) auto

lemma self_delta:
  "fl_div (fl_sub r r) r = (case r of Fin x \<Rightarrow> if x \<noteq> 0 then Fin 0 else NaN | _ \<Rightarrow> NaN)"
  by (cases r) (simp_all add: fl_sub_def)

lemma filter_fst_absent: "n \<notin> fst ` set cs \<Longrightarrow> filter (\<lambda>c. fst c = n) cs = []"
  by (induction cs) auto

lemma filter_name_joined:
  assumes "list_all2 (\<lambda>s f. \<exists>vs. cols f = [(name s, vs)]) ss fs"
    and "distinct (map name ss)"
    and "s \<in> set ss"
    and "list_all2 (\<lambda>s f. get f s) ss fs"
    and "\<And>f. get f s \<Longrightarrow> cols f = [(name s, rvs)]"
  shows "filter (\<lambda>c. fst c = name s) (concat (map cols fs)) = [(name s, rvs)]"
  using assms(1-4)
proof (induction ss fs rule: list_all2_induct)
  case Nil
  then show ?case by simp
next
  case (Cons x xs f fs)
  from Cons.hyps(1) obtain vs where c: "cols f = [(name x, vs)]" by blast
  show ?case
  proof (cases "x = s")
    case True
    with Cons.prems have "name s \<notin> name ` set xs" by auto
    moreover from Cons.hyps(2) have "fst ` set (concat (map cols fs)) \<subseteq> name ` set xs"
      by (induction xs fs rule: list_all2_induct) auto
    ultimately have "name s \<notin> fst ` set (concat (map cols fs))" by blast
    then have "filter (\<lambda>c. fst c = name s) (concat (map cols fs)) = []"
      by (rule filter_fst_absent)
    moreover from Cons.prems True have "cols f = [(name s, rvs)]" by (auto intro: assms(5))
    ultimately show ?thesis by simp
  next
    case False
    with Cons.prems have "s \<in> set xs" and "name x \<noteq> name s" by auto
    with Cons c show ?thesis by simp
  qed
qed

text \<open>
  C2, amended. Take a comparison whose reference scenario is among the compared scenarios,
  where the compared scenarios have distinct names and their summaries all have the row
  labels of the reference's summary, in the same order. Then \<open>comparison_results\<close> returns
  a table on those rows with one column under the reference's name, and that column is
  zero at every row where the reference's summary is finite and not zero; at a row where
  the reference's summary is zero it is NaN, the quotient of zero by zero.
\<close>

theorem comparison_results_reference_column:
  assumes r: "get_summary_results (reference_scenario self) = Inr ref_summary"
    and fs: "map_res get_summary_results (list_scenarios self) = Inr frames"
    and mem: "reference_scenario self \<in> set (list_scenarios self)"
    and dn: "distinct (map name (list_scenarios self))"
    and ix: "\<forall>f \<in> set frames. index f = index ref_summary"
    and c: "cols ref_summary = [(n, rvs)]"
  shows "\<exists>self' res vs. comparison_results self = Inr (self', res) \<and>
           index res = index ref_summary \<and>
           filter (\<lambda>c. fst c = name (reference_scenario self)) (cols res)
             = [(name (reference_scenario self), vs)] \<and>
           length vs = length rvs \<and>
           (\<forall>i < length rvs.
              (\<forall>x. rvs ! i = Fin x \<and> x \<noteq> 0 \<longrightarrow> vs ! i = Fin 0) \<and>
              (rvs ! i = Fin 0 \<longrightarrow> vs ! i = NaN))"
proof -
  define rn where "rn = name (reference_scenario self)"
  from one_col_get_summary_results [OF r] c
  have n: "n = rn" and lr: "length rvs = length (index ref_summary)"
    by (auto simp: rn_def)
  from fs have a2: "list_all2 (\<lambda>s f. get_summary_results s = Inr f) (list_scenarios self) frames"
    by (rule map_res_all2)
  then have a1: "list_all2 (\<lambda>s f. \<exists>vs. cols f = [(name s, vs)]) (list_scenarios self) frames"
    by (rule list_all2_mono) (use one_col_get_summary_results in blast)
  from a2 mem have ne: "frames \<noteq> []" by (auto simp: list_all2_conv_all_nth)
  define joined where
    "joined = \<lparr>index = index ref_summary, cols = concat (map cols frames)\<rparr>"
  from ne ix have j: "concat_axis1 frames = Inr joined"
    unfolding joined_def by (rule concat_axis1_same_index)
  have fj: "filter (\<lambda>c. fst c = rn) (cols joined) = [(rn, rvs)]"
    unfolding joined_def rn_def using a1 dn mem a2
    by (simp, rule filter_name_joined) (use r c n rn_def in auto)
  have names: "map fst (cols joined) = map name (list_scenarios self)"
    unfolding joined_def using a1
    by (simp, induction rule: list_all2_induct) auto
  have ds: "distinct (sort (map fst (cols joined)))" using dn by (simp add: names)
  have sub: "set (sort (map fst (cols joined))) \<subseteq> fst ` set (cols joined)" by simp
  from select_columns_filter [OF ds sub]
  obtain sorted_cols where sc: "select_columns (sort (map fst (cols joined))) joined
      = Inr sorted_cols"
    and sf: "\<forall>m. filter (\<lambda>c. fst c = m) sorted_cols
              = (if m \<in> set (sort (map fst (cols joined)))
                 then filter (\<lambda>c. fst c = m) (cols joined) else [])"
    by blast
  from mem have "rn \<in> set (sort (map fst (cols joined)))"
    by (simp add: names rn_def)
  with sf fj have fs': "filter (\<lambda>c. fst c = rn) sorted_cols = [(rn, rvs)]" by simp
  have ij: "index joined = index ref_summary" by (simp add: joined_def)
  define summary where "summary = \<lparr>index = index ref_summary, cols = sorted_cols\<rparr>"
  have cs: "comparison_summary_results self
              = Inr (self\<lparr>cached_summary_results := summary\<rparr>, summary)"
    by (simp add: comparison_summary_results_def fs j sc bind_res_def Let_def summary_def ij)
  have v: "values_of ref_summary = (length (index summary), [rvs])"
    by (simp add: values_of_def c summary_def)
  define delta where
    "delta = summary\<lparr>cols := map (\<lambda>c. (fst c, map2 fl_sub (snd c) rvs)) (cols summary)\<rparr>"
  have d: "arith_values fl_sub summary (values_of ref_summary) = Inr delta"
    unfolding v delta_def by (rule arith_values_column)
  have v': "values_of ref_summary = (length (index delta), [rvs])"
    by (simp add: v delta_def)
  define res where
    "res = delta\<lparr>cols := map (\<lambda>c. (fst c, map2 fl_div (snd c) rvs)) (cols delta)\<rparr>"
  have q: "arith_values fl_div delta (values_of ref_summary) = Inr res"
    unfolding v' res_def by (rule arith_values_column)
  have cr: "comparison_results self = Inr (self\<lparr>cached_summary_results := summary\<rparr>, res)"
    by (simp add: comparison_results_def r cs d q bind_res_def)
  define vs where "vs = map2 fl_div (map2 fl_sub rvs rvs) rvs"
  have "cols res = map (\<lambda>c. (fst c, map2 fl_div (map2 fl_sub (snd c) rvs) rvs)) sorted_cols"
    by (simp add: res_def delta_def summary_def comp_def)
  then have fr: "filter (\<lambda>c. fst c = rn) (cols res) = [(rn, vs)]"
    by (simp add: filter_fst_map [where g = "\<lambda>xs. map2 fl_div (map2 fl_sub xs rvs) rvs"]
        fs' vs_def)
  have ir: "index res = index ref_summary"
    by (simp add: res_def delta_def summary_def)
  have lv: "length vs = length rvs" by (simp add: vs_def)
  have cell: "vs ! i = fl_div (fl_sub (rvs ! i) (rvs ! i)) (rvs ! i)" if "i < length rvs" for i
    using that by (simp add: vs_def)
  have rows: "\<forall>i < length rvs.
              (\<forall>x. rvs ! i = Fin x \<and> x \<noteq> 0 \<longrightarrow> vs ! i = Fin 0) \<and>
              (rvs ! i = Fin 0 \<longrightarrow> vs ! i = NaN)"
    by (auto simp: cell self_delta)
  from cr ir fr lv rows show ?thesis unfolding rn_def by blast
qed

lemma summary_sample:
  "get_summary_results scenario_sample =
     Inr \<lparr>index = [SiteData IMPORT_ELECTRICITY_DEMAND, SiteData EXPORT_ELECTRICITY_DEMAND,
                  SiteData ELECTRICITY_GENERATION, SiteData ADDITIONAL_ELECTRICITY_DEMAND,
                  SiteData INIT_SITE_ELECTRICITY_DEMAND, SiteData SELF_CONSUMED_ELECTRICITY,
                  Results IMPORT_ELECTRICITY_COSTS, Results EXPORT_ELECTRICITY_REVENUES,
                  Results ELECTRICITY_SAVINGS, Results GHG_EMISSIONS_IMPORT_ELECTRICITY,
                  Results SITE_GHG_EMISSIONS_DISPLACED, Results TOTAL_GHG_EMISSIONS_DISPLACED,
                  Results PEAK_ELECTRICITY_IMPORT, Results PEAK_ELECTRICITY_EXPORT,
                  ByTechnology PV CAPEX, Results OPEX, ByTechnology PV CAPACITY_INSTALLED],
          cols = [(''base'',
                   [Fin 4, Fin 0, Fin 3, Fin 0, Fin 7, Fin 3, Fin 10, Fin 0, Fin 10, Fin (3 / 5),
                    Fin (9 / 20), Fin (9 / 20), Fin 6, Fin 0, Fin 1000, Fin 20, Fin 5])]\<rparr>"
  by code_simp

lemma summary_alt_sample:
  "get_summary_results scenario_alt_sample =
     Inr \<lparr>index = [SiteData IMPORT_ELECTRICITY_DEMAND, SiteData EXPORT_ELECTRICITY_DEMAND,
                  SiteData ELECTRICITY_GENERATION, SiteData ADDITIONAL_ELECTRICITY_DEMAND,
                  SiteData INIT_SITE_ELECTRICITY_DEMAND, SiteData SELF_CONSUMED_ELECTRICITY,
                  Results IMPORT_ELECTRICITY_COSTS, Results EXPORT_ELECTRICITY_REVENUES,
                  Results ELECTRICITY_SAVINGS, Results GHG_EMISSIONS_IMPORT_ELECTRICITY,
                  Results SITE_GHG_EMISSIONS_DISPLACED, Results TOTAL_GHG_EMISSIONS_DISPLACED,
                  Results PEAK_ELECTRICITY_IMPORT, Results PEAK_ELECTRICITY_EXPORT,
                  ByTechnology PV CAPEX, Results OPEX, ByTechnology PV CAPACITY_INSTALLED],
          cols = [(''alt'',
                   [Fin 4, Fin 0, Fin 3, Fin 0, Fin 7, Fin 3, Fin 10, Fin 0, Fin 10, Fin (3 / 5),
                    Fin (9 / 20), Fin (9 / 20), Fin 6, Fin 0, Fin 2000, Fin 20, Fin 5])]\<rparr>"
  by code_simp

text \<open>
  Counterexample to C2 as the specification states it. The sample comparison has its
  reference, named base, among the compared scenarios. The reference exports nothing and
  has no additional demand, so four rows of its summary are zero: there the column under
  the reference's name holds NaN, the quotient of zero by zero, and not zero.
\<close>

theorem comparison_results_reference_column_nan:
  "reference_scenario comparison_sample \<in> set (list_scenarios comparison_sample) \<and>
   name (reference_scenario comparison_sample) = ''base'' \<and>
   map_sum id snd (comparison_results comparison_sample) =
     Inr \<lparr>index = [SiteData IMPORT_ELECTRICITY_DEMAND, SiteData EXPORT_ELECTRICITY_DEMAND,
                  SiteData ELECTRICITY_GENERATION, SiteData ADDITIONAL_ELECTRICITY_DEMAND,
                  SiteData INIT_SITE_ELECTRICITY_DEMAND, SiteData SELF_CONSUMED_ELECTRICITY,
                  Results IMPORT_ELECTRICITY_COSTS, Results EXPORT_ELECTRICITY_REVENUES,
                  Results ELECTRICITY_SAVINGS, Results GHG_EMISSIONS_IMPORT_ELECTRICITY,
                  Results SITE_GHG_EMISSIONS_DISPLACED, Results TOTAL_GHG_EMISSIONS_DISPLACED,
                  Results PEAK_ELECTRICITY_IMPORT, Results PEAK_ELECTRICITY_EXPORT,
                  ByTechnology PV CAPEX, Results OPEX, ByTechnology PV CAPACITY_INSTALLED],
          cols = [(''alt'',
                   [Fin 0, NaN, Fin 0, NaN, Fin 0, Fin 0, Fin 0, NaN, Fin 0, Fin 0, Fin 0,
                    Fin 0, Fin 0, NaN, Fin 1, Fin 0, Fin 0]),
                  (''base'',
                   [Fin 0, NaN, Fin 0, NaN, Fin 0, Fin 0, Fin 0, NaN, Fin 0, Fin 0, Fin 0,
                    Fin 0, Fin 0, NaN, Fin 0, Fin 0, Fin 0])]\<rparr>"
  by code_simp

theorem comparison_results_reference_column_witness:
  "\<exists>self' res vs. comparison_results comparison_sample = Inr (self', res) \<and>
     filter (\<lambda>c. fst c = ''base'') (cols res) = [(''base'', vs)] \<and>
     length vs = 17 \<and> vs ! 0 = Fin 0 \<and> vs ! 1 = NaN \<and> vs ! 14 = Fin 0"
proof -
  let ?rvs = "[Fin 4, Fin 0, Fin 3, Fin 0, Fin 7, Fin 3, Fin 10, Fin 0, Fin 10, Fin (3 / 5),
                    Fin (9 / 20), Fin (9 / 20), Fin 6, Fin 0, Fin 1000, Fin 20, Fin 5]"
  let ?tb = "\<lparr>index = [SiteData IMPORT_ELECTRICITY_DEMAND, SiteData EXPORT_ELECTRICITY_DEMAND,
                  SiteData ELECTRICITY_GENERATION, SiteData ADDITIONAL_ELECTRICITY_DEMAND,
                  SiteData INIT_SITE_ELECTRICITY_DEMAND, SiteData SELF_CONSUMED_ELECTRICITY,
                  Results IMPORT_ELECTRICITY_COSTS, Results EXPORT_ELECTRICITY_REVENUES,
                  Results ELECTRICITY_SAVINGS, Results GHG_EMISSIONS_IMPORT_ELECTRICITY,
                  Results SITE_GHG_EMISSIONS_DISPLACED, Results TOTAL_GHG_EMISSIONS_DISPLACED,
                  Results PEAK_ELECTRICITY_IMPORT, Results PEAK_ELECTRICITY_EXPORT,
                  ByTechnology PV CAPEX, Results OPEX, ByTechnology PV CAPACITY_INSTALLED],
          cols = [(''base'',
                   [Fin 4, Fin 0, Fin 3, Fin 0, Fin 7, Fin 3, Fin 10, Fin 0, Fin 10, Fin (3 / 5),
                    Fin (9 / 20), Fin (9 / 20), Fin 6, Fin 0, Fin 1000, Fin 20, Fin 5])]\<rparr>"
  let ?ta = "\<lparr>index = [SiteData IMPORT_ELECTRICITY_DEMAND, SiteData EXPORT_ELECTRICITY_DEMAND,
                  SiteData ELECTRICITY_GENERATION, SiteData ADDITIONAL_ELECTRICITY_DEMAND,
                  SiteData INIT_SITE_ELECTRICITY_DEMAND, SiteData SELF_CONSUMED_ELECTRICITY,
                  Results IMPORT_ELECTRICITY_COSTS, Results EXPORT_ELECTRICITY_REVENUES,
                  Results ELECTRICITY_SAVINGS, Results GHG_EMISSIONS_IMPORT_ELECTRICITY,
                  Results SITE_GHG_EMISSIONS_DISPLACED, Results TOTAL_GHG_EMISSIONS_DISPLACED,
                  Results PEAK_ELECTRICITY_IMPORT, Results PEAK_ELECTRICITY_EXPORT,
                  ByTechnology PV CAPEX, Results OPEX, ByTechnology PV CAPACITY_INSTALLED],
          cols = [(''alt'',
                   [Fin 4, Fin 0, Fin 3, Fin 0, Fin 7, Fin 3, Fin 10, Fin 0, Fin 10, Fin (3 / 5),
                    Fin (9 / 20), Fin (9 / 20), Fin 6, Fin 0, Fin 2000, Fin 20, Fin 5])]\<rparr>"
  have n: "name (reference_scenario comparison_sample) = ''base''"
    by (simp add: comparison_sample_def scenario_sample_def)
  have r: "get_summary_results (reference_scenario comparison_sample) = Inr ?tb"
    by (simp add: comparison_sample_def summary_sample)
  have fs: "map_res get_summary_results (list_scenarios comparison_sample) = Inr [?tb, ?ta]"
    by (simp add: comparison_sample_def summary_sample summary_alt_sample bind_res_def)
  have mem: "reference_scenario comparison_sample \<in> set (list_scenarios comparison_sample)"
    by (simp add: comparison_sample_def)
  have dn: "distinct (map name (list_scenarios comparison_sample))"
    by (simp add: comparison_sample_def scenario_sample_def scenario_alt_sample_def)
  have ix: "\<forall>f \<in> set [?tb, ?ta]. index f = index ?tb" by simp
  have c: "cols ?tb = [(''base'', ?rvs)]" by simp
  from comparison_results_reference_column [OF r fs mem dn ix c]
  obtain self' res vs where
    cr: "comparison_results comparison_sample = Inr (self', res)"
    and f: "filter (\<lambda>c. fst c = name (reference_scenario comparison_sample)) (cols res)
             = [(name (reference_scenario comparison_sample), vs)]"
    and l: "length vs = length ?rvs"
    and rows: "\<forall>i < length ?rvs.
              (\<forall>x. ?rvs ! i = Fin x \<and> x \<noteq> 0 \<longrightarrow> vs ! i = Fin 0) \<and>
              (?rvs ! i = Fin 0 \<longrightarrow> vs ! i = NaN)"
    by blast
  have "(0::nat) < length ?rvs" "(1::nat) < length ?rvs" "(14::nat) < length ?rvs"
    by simp_all
  with rows have "vs ! 0 = Fin 0" "vs ! 1 = NaN" "vs ! 14 = Fin 0"
    by fastforce+
  moreover from l have "length vs = 17" by simp
  ultimately show ?thesis using cr f unfolding n by blast
qed

section \<open>Scenario: the accessors return copies\<close>

lemma filter_map_fst:
  "filter (\<lambda>c. fst c = l) (map (\<lambda>c. (fst c, g c)) cs)
     = map (\<lambda>c. (fst c, g c)) (filter (\<lambda>c. fst c = l) cs)"
  by (induction cs) auto

lemma mutate_prefix:
  assumes "\<forall>c \<in> set (ref_cols df). n \<le> snd c"
  shows "take n (mutate ws df st) = take n st"
proof (induction ws arbitrary: st)
  case Nil
  show ?case by simp
next
  case (Cons w ws)
  show ?case
  proof (cases "iloc_set_ref (fst w) (fst (snd w)) (snd (snd w)) df st")
    case (Inl e)
    with Cons show ?thesis by simp
  next
    case (Inr st2)
    then have j: "fst (snd w) < length (ref_cols df)"
      and st2: "st2 = st[snd (ref_cols df ! fst (snd w)) :=
                       (st ! snd (ref_cols df ! fst (snd w)))[fst w := snd (snd w)]]"
      by (auto simp: iloc_set_ref_def split: if_splits)
    from j assms have "n \<le> snd (ref_cols df ! fst (snd w))" by simp
    then have "take n st2 = take n st" unfolding st2 by (rule take_update_cancel)
    with Cons [of st2] Inr show ?thesis by simp
  qed
qed

lemma deref_take:
  assumes "allocated st0 df" and "take (length st0) st = st0"
  shows "deref st df = deref st0 df"
proof -
  have "st ! snd c = st0 ! snd c" if "c \<in> set (ref_cols df)" for c
  proof -
    from that assms(1) have "snd c < length st0" by (auto simp: allocated_def list_all_iff)
    then have "take (length st0) st ! snd c = st ! snd c" by (rule nth_take)
    with assms(2) show ?thesis by simp
  qed
  then show ?thesis by (simp add: deref_def)
qed

lemma accessor_ref_copy:
  assumes "bind_res (getitem_column_ref l demand) (\<lambda>view. Inr (copy_ref view st))
             = Inr (returned, st')"
  shows "\<exists>c. filter (\<lambda>c. fst c = l) (ref_cols demand) = [c] \<and>
             returned = \<lparr>ref_index = ref_index demand, ref_cols = [(fst c, length st)]\<rparr> \<and>
             st' = st @ [st ! snd c]"
  using assms
  by (auto simp: bind_res_def getitem_column_ref_def copy_ref_def split: list.splits)

lemma accessor_ref_frame:
  assumes r: "bind_res (getitem_column_ref l demand) (\<lambda>view. Inr (copy_ref view st))
             = Inr (returned, st')"
    and al: "allocated st demand"
  shows "getitem_column l (deref st demand) = Inr (deref st' returned)"
    and "deref (mutate ws returned st') demand = deref st demand"
    and "set (map snd (ref_cols returned)) \<inter> set (map snd (ref_cols demand)) = {}"
proof -
  from accessor_ref_copy [OF r] obtain c where
    f: "filter (\<lambda>c. fst c = l) (ref_cols demand) = [c]"
    and ret: "returned = \<lparr>ref_index = ref_index demand, ref_cols = [(fst c, length st)]\<rparr>"
    and st': "st' = st @ [st ! snd c]"
    by blast
  show "getitem_column l (deref st demand) = Inr (deref st' returned)"
    by (simp add: getitem_column_def deref_def filter_map_fst f ret st')
  have "\<forall>c \<in> set (ref_cols returned). length st \<le> snd c" by (simp add: ret)
  then have "take (length st) (mutate ws returned st') = take (length st) st'"
    by (rule mutate_prefix)
  then have "take (length st) (mutate ws returned st') = st" by (simp add: st')
  with al show "deref (mutate ws returned st') demand = deref st demand"
    by (rule deref_take)
  from al show "set (map snd (ref_cols returned)) \<inter> set (map snd (ref_cols demand)) = {}"
    by (auto simp: ret allocated_def list_all_iff)
qed

text \<open>
  C10. Let the field \<open>site_energy_demand\<close> of a scenario hold a table whose buffers are in
  the store, and let one of the four accessors return a table. Then the table returned
  is the accessor's column of the site energy demand, in buffers that the site energy
  demand does not use; and after any writes into the cells of the returned table the
  site energy demand is the table it was, so that \<open>export_results\<close>, which runs every
  metric calculation, returns what it returned before.
\<close>

theorem accessors_return_copies:
  assumes a: "(accessor_ref, accessor) \<in>
                {(import_demand_ref, import_demand), (export_demand_ref, export_demand),
                 (avoided_import_ref, avoided_import),
                 (onsite_generation_ref, onsite_generation_of)}"
    and al: "allocated st demand"
    and s: "site_energy_demand self = deref st demand"
    and r: "accessor_ref demand st = Inr (returned, st')"
  shows "accessor self = Inr (deref st' returned) \<and>
         set (map snd (ref_cols returned)) \<inter> set (map snd (ref_cols demand)) = {} \<and>
         deref (mutate writes returned st') demand = site_energy_demand self \<and>
         export_results (self\<lparr>site_energy_demand := deref (mutate writes returned st') demand\<rparr>)
           = export_results self"
proof -
  from a obtain l where
    ar: "accessor_ref demand st
           = bind_res (getitem_column_ref l demand) (\<lambda>view. Inr (copy_ref view st))"
    and av: "accessor self = getitem_column l (site_energy_demand self)"
    by (auto simp: import_demand_ref_def export_demand_ref_def avoided_import_ref_def
        onsite_generation_ref_def import_demand_def export_demand_def avoided_import_def
        onsite_generation_of_def)
  from r have r': "bind_res (getitem_column_ref l demand) (\<lambda>view. Inr (copy_ref view st))
                     = Inr (returned, st')"
    unfolding ar .
  have m: "deref (mutate writes returned st') demand = site_energy_demand self"
    unfolding s using r' al by (rule accessor_ref_frame(2))
  have "accessor self = Inr (deref st' returned)"
    unfolding av s using r' al by (rule accessor_ref_frame(1))
  moreover have "set (map snd (ref_cols returned)) \<inter> set (map snd (ref_cols demand)) = {}"
    using r' al by (rule accessor_ref_frame(3))
  ultimately show ?thesis by (simp add: m)
qed

theorem accessors_return_copies_witness:
  "import_demand_ref demand_ref_sample store_sample
     = Inr (\<lparr>ref_index = [0::nat, 1], ref_cols = [(SiteData IMPORT_ELECTRICITY_DEMAND, 6)]\<rparr>,
            store_sample @ [[Fin 3, Fin 1]]) \<and>
   import_demand scenario_sample
     = Inr \<lparr>index = [0, 1], cols = [(SiteData IMPORT_ELECTRICITY_DEMAND, [Fin 3, Fin 1])]\<rparr> \<and>
   deref (mutate [(0, 0, Fin 99)]
            \<lparr>ref_index = [0::nat, 1], ref_cols = [(SiteData IMPORT_ELECTRICITY_DEMAND, 6)]\<rparr>
            (store_sample @ [[Fin 3, Fin 1]]))
         \<lparr>ref_index = [0::nat, 1], ref_cols = [(SiteData IMPORT_ELECTRICITY_DEMAND, 6)]\<rparr>
     = \<lparr>index = [0, 1], cols = [(SiteData IMPORT_ELECTRICITY_DEMAND, [Fin 99, Fin 1])]\<rparr> \<and>
   deref (mutate [(0, 0, Fin 99)]
            \<lparr>ref_index = [0::nat, 1], ref_cols = [(SiteData IMPORT_ELECTRICITY_DEMAND, 6)]\<rparr>
            (store_sample @ [[Fin 3, Fin 1]]))
         demand_ref_sample
     = site_energy_demand scenario_sample"
proof -
  let ?ret = "\<lparr>ref_index = [0::nat, 1], ref_cols = [(SiteData IMPORT_ELECTRICITY_DEMAND, 6)]\<rparr>"
  let ?st' = "store_sample @ [[Fin 3, Fin 1]]"
  have a: "(import_demand_ref, import_demand) \<in>
                {(import_demand_ref, import_demand), (export_demand_ref, export_demand),
                 (avoided_import_ref, avoided_import),
                 (onsite_generation_ref, onsite_generation_of)}"
    by simp
  have al: "allocated store_sample demand_ref_sample"
    by (simp add: allocated_def store_sample_def demand_ref_sample_def)
  have s: "site_energy_demand scenario_sample = deref store_sample demand_ref_sample"
    by (simp add: scenario_sample_def deref_def store_sample_def demand_ref_sample_def)
  have r: "import_demand_ref demand_ref_sample store_sample = Inr (?ret, ?st')"
    by (simp add: import_demand_ref_def getitem_column_ref_def bind_res_def copy_ref_def
        demand_ref_sample_def store_sample_def)
  from accessors_return_copies [OF a al s r, of "[(0, 0, Fin 99)]"]
  have v: "import_demand scenario_sample = Inr (deref ?st' ?ret)"
    and m: "deref (mutate [(0, 0, Fin 99)] ?ret ?st') demand_ref_sample
              = site_energy_demand scenario_sample"
    by blast+
  have d: "deref ?st' ?ret
             = \<lparr>index = [0, 1], cols = [(SiteData IMPORT_ELECTRICITY_DEMAND, [Fin 3, Fin 1])]\<rparr>"
    by (simp add: deref_def store_sample_def)
  have w: "deref (mutate [(0, 0, Fin 99)] ?ret ?st') ?ret
     = \<lparr>index = [0, 1], cols = [(SiteData IMPORT_ELECTRICITY_DEMAND, [Fin 99, Fin 1])]\<rparr>"
    by (simp add: deref_def iloc_set_ref_def store_sample_def)
  from v have v': "import_demand scenario_sample
      = Inr \<lparr>index = [0, 1], cols = [(SiteData IMPORT_ELECTRICITY_DEMAND, [Fin 3, Fin 1])]\<rparr>"
    unfolding d .
  show ?thesis by (intro conjI) (rule r v' w m)+
qed

text \<open>
  Without the copy the accessor would return the view, and the same write would reach
  the site energy demand of the scenario.
\<close>

lemma view_write_reaches_demand:
  "getitem_column_ref (SiteData IMPORT_ELECTRICITY_DEMAND) demand_ref_sample
     = Inr \<lparr>ref_index = [0::nat, 1], ref_cols = [(SiteData IMPORT_ELECTRICITY_DEMAND, 0)]\<rparr> \<and>
   cols (deref (mutate [(0, 0, Fin 99)]
                 \<lparr>ref_index = [0::nat, 1], ref_cols = [(SiteData IMPORT_ELECTRICITY_DEMAND, 0)]\<rparr>
                 store_sample)
           demand_ref_sample) ! 0
     = (SiteData IMPORT_ELECTRICITY_DEMAND, [Fin 99, Fin 1])"
  by (simp add: getitem_column_ref_def deref_def iloc_set_ref_def store_sample_def
      demand_ref_sample_def)

end
